theory Spec2Isabelle
  imports Main
begin

section \<open>Data model (package utils)\<close>

text \<open>
  A Go \<^verbatim>\<open>error\<close> is represented by its message text; \<^verbatim>\<open>nil\<close> is \<open>None\<close> of
  \<open>error option\<close>, and a pair \<^verbatim>\<open>(value, error)\<close> of which the caller reads only one
  side is a sum with \<open>Inl\<close> for the error.
\<close>

type_synonym error = string

text \<open>
  Modelled from the spec: the struct declarations \<^verbatim>\<open>SidekickServer\<close>, \<^verbatim>\<open>SidekickContext\<close> and
  \<^verbatim>\<open>SidekickConfig\<close> of package utils are not among the sources. Their fields are the ones
  the spec lists for the persisted registry file, which are the ones the sources read and
  write; the zero value of a string field is the empty string.
\<close>

record SidekickServer =
  Name :: string
  Address :: string
  CertEmail :: string
  Distro :: string
  PlatformId :: string
  PublicKey :: string
  SecretKey :: string

record SidekickContext =
  Name :: string
  Server :: string

record SidekickConfig =
  Version :: string
  Servers :: "SidekickServer list"
  Contexts :: "SidekickContext list"
  CurrentContext :: string

text \<open>
  Modelled from the spec: the stage descriptor of the catalog (package utils) is not among
  the sources, which read only its ordered command list.
\<close>

record CommandsStage =
  Commands :: "string list"

section \<open>The outside world\<close>

text \<open>
  Every call that leaves the program (local processes, the SSH session, the file system,
  the terminal) is a parameter: a function of the world \<open>'w\<close> that returns the call's
  result and the next world. \<open>'c\<close> is the type of SSH client handles. The functions of
  package utils that are not part of the sources under study (\<^verbatim>\<open>Login\<close>,
  \<^verbatim>\<open>RunCommand\<close>, \<^verbatim>\<open>RunStage\<close>, \<^verbatim>\<open>RunCommandsWithTUIHook\<close>, the stage catalog) are
  parameters too.

  \<^verbatim>\<open>RunCommand\<close> returns an output channel and an error. The channel is represented by what a
  receive from it yields: \<open>Some out\<close>, or \<open>None\<close> when the receive never completes.
\<close>

type_synonym chan = "string option"

record ('w, 'c) env =
  exec_LookPath :: "string \<Rightarrow> 'w \<Rightarrow> (error + string) \<times> 'w"
  exec_Run :: "string \<Rightarrow> string list \<Rightarrow> 'w \<Rightarrow> error option \<times> 'w"
  exec_Output :: "string \<Rightarrow> 'w \<Rightarrow> (error + string) \<times> 'w"
  utils_Login :: "string \<Rightarrow> string \<Rightarrow> 'w \<Rightarrow> (error + 'c) \<times> 'w"
  utils_RunCommand :: "'c \<Rightarrow> string \<Rightarrow> 'w \<Rightarrow> (chan \<times> error option) \<times> 'w"
  utils_RunStage :: "'c \<Rightarrow> CommandsStage \<Rightarrow> 'w \<Rightarrow> error option \<times> 'w"
  utils_RunCommandsWithTUIHook :: "'c \<Rightarrow> string list \<Rightarrow> 'w \<Rightarrow> error option \<times> 'w"
  utils_IsValidIPAddress :: "string \<Rightarrow> bool"
  utils_UsersetupStage :: CommandsStage
  utils_SetupStage :: CommandsStage
  utils_DockerStage :: CommandsStage
  utils_GetTraefikStage :: "string \<Rightarrow> CommandsStage"
  render_GenerateTextQuestion :: "string \<Rightarrow> string \<Rightarrow> string \<Rightarrow> 'w \<Rightarrow> string \<times> 'w"
  namesgenerator_GetRandomName :: "'w \<Rightarrow> string \<times> 'w"
  os_ReadFile :: "string \<Rightarrow> 'w \<Rightarrow> (error + string) \<times> 'w"
  os_WriteFile :: "string \<Rightarrow> string \<Rightarrow> 'w \<Rightarrow> error option \<times> 'w"
  os_Stdout_Write :: "string \<Rightarrow> 'w \<Rightarrow> error option \<times> 'w"
  yaml_Marshal :: "SidekickConfig \<Rightarrow> error + string"
  yaml_Unmarshal_Config :: "string \<Rightarrow> SidekickConfig \<times> error option"
  yaml_Unmarshal_Server :: "string \<Rightarrow> SidekickServer \<times> error option"
  viper_GetString_config :: string
  time_Since_start :: "'w \<Rightarrow> string"

text \<open>The external calls a run performs are logged in order, oldest first.\<close>

datatype 'c call =
    CLookPath string
  | CExecRun string "string list"
  | CExecOutput string
  | CLogin string string
  | CRunCommand 'c string
  | CRunStage 'c CommandsStage
  | CRunCommandsWithTUIHook 'c "string list"
  | CGenerateTextQuestion string string string
  | CGetRandomName
  | CReadFile string
  | CWriteFile string string
  | CStdoutWrite string
  | CPrintln string
  | CFatal string

record ('w, 'c) sys =
  world :: 'w
  calls :: "'c call list"

text \<open>
  \<^verbatim>\<open>fmt.Println\<close> only adds its line to the log. \<^verbatim>\<open>log.Fatalf\<close> prints its message and
  calls \<^verbatim>\<open>os.Exit(1)\<close>. \<^verbatim>\<open>pterm.Fatal.Println\<close> prints its message and panics, and a
  process that panics ends with status 2. \<^verbatim>\<open>os.Exit\<close> ends the process with the status
  given. A \<^verbatim>\<open>Run\<close> function of a command therefore either ends the process or returns to
  its caller.
\<close>

datatype 'a proc = Exit int | Return 'a

definition fmt_Println :: "string \<Rightarrow> ('w, 'c) sys \<Rightarrow> ('w, 'c) sys" where
  "fmt_Println line s = s\<lparr>calls := calls s @ [CPrintln line]\<rparr>"

definition log_Fatalf :: "string \<Rightarrow> ('w, 'c) sys \<Rightarrow> 'a proc \<times> ('w, 'c) sys" where
  "log_Fatalf message s = (Exit 1, s\<lparr>calls := calls s @ [CFatal message]\<rparr>)"

definition pterm_Fatal_Println :: "string \<Rightarrow> ('w, 'c) sys \<Rightarrow> 'a proc \<times> ('w, 'c) sys" where
  "pterm_Fatal_Println message s = (Exit 2, s\<lparr>calls := calls s @ [CFatal message]\<rparr>)"

definition extern :: "'c call \<Rightarrow> ('w \<Rightarrow> 'r \<times> 'w) \<Rightarrow> ('w, 'c) sys \<Rightarrow> 'r \<times> ('w, 'c) sys" where
  "extern c f s = (case f (world s) of (r, w') \<Rightarrow> (r, \<lparr>world = w', calls = calls s @ [c]\<rparr>))"

section \<open>The registry (utils/config.go)\<close>

text \<open>
  The value stored under the key \<^verbatim>\<open>"config"\<close> in the command's context is \<open>Some\<close> registry
  when the type assertion to \<^verbatim>\<open>*SidekickConfig\<close> succeeds and \<open>None\<close> otherwise.
\<close>

definition GetSidekickConfigFromCmdContext :: "SidekickConfig option \<Rightarrow> error + SidekickConfig" where
  "GetSidekickConfigFromCmdContext ctxValue =
     (case ctxValue of
        None \<Rightarrow> Inl ''config not found in cmd context. This is likely a bug in the root cmd initialization.''
      | Some config \<Rightarrow> Inr config)"

definition Save :: "('w, 'c) env \<Rightarrow> SidekickConfig \<Rightarrow> string \<Rightarrow> ('w, 'c) sys \<Rightarrow> error option \<times> ('w, 'c) sys" where
  "Save env c path s =
     (case yaml_Marshal env c of
        Inl err \<Rightarrow> (Some err, s)
      | Inr data \<Rightarrow> extern (CWriteFile path data) (os_WriteFile env path data) s)"

definition Print :: "('w, 'c) env \<Rightarrow> SidekickConfig \<Rightarrow> ('w, 'c) sys \<Rightarrow> error option \<times> ('w, 'c) sys" where
  "Print env c s =
     (case yaml_Marshal env c of
        Inl err \<Rightarrow> (Some err, s)
      | Inr data \<Rightarrow> extern (CStdoutWrite data) (os_Stdout_Write env data) s)"

fun FindContext_loop :: "SidekickContext list \<Rightarrow> string \<Rightarrow> error + SidekickContext" where
  "FindContext_loop [] name = Inl (''context '' @ [CHR 0x27] @ name @ [CHR 0x27] @ '' not found'')"
| "FindContext_loop (ctx # rest) name =
     (if SidekickContext.Name ctx = name then Inr ctx else FindContext_loop rest name)"

definition FindContext :: "SidekickConfig \<Rightarrow> string \<Rightarrow> error + SidekickContext" where
  "FindContext c name = FindContext_loop (Contexts c) name"

fun FindServer_loop :: "SidekickServer list \<Rightarrow> string \<Rightarrow> error + SidekickServer" where
  "FindServer_loop [] name = Inl (''server '' @ [CHR 0x27] @ name @ [CHR 0x27] @ '' not found'')"
| "FindServer_loop (s # rest) name =
     (if SidekickServer.Name s = name then Inr s else FindServer_loop rest name)"

definition FindServer :: "SidekickConfig \<Rightarrow> string \<Rightarrow> error + SidekickServer" where
  "FindServer c name = FindServer_loop (Servers c) name"

definition FindServerByContext :: "SidekickConfig \<Rightarrow> string \<Rightarrow> error + SidekickServer" where
  "FindServerByContext c ctxName =
     (case FindContext c ctxName of
        Inl err \<Rightarrow> Inl err
      | Inr ctx \<Rightarrow> FindServer c (Server ctx))"

text \<open>
  The search loops of \<^verbatim>\<open>AddOrReplaceContext\<close> and \<^verbatim>\<open>AddOrReplaceServer\<close>: \<open>i\<close> is the index
  of the head of the remaining slice; the result is the \<^verbatim>\<open>idx\<close> at the loop's exit, \<open>-1\<close>
  when no element matched and the index of the first match (\<^verbatim>\<open>break\<close>) otherwise.
\<close>

fun AddOrReplaceContext_idx :: "SidekickContext list \<Rightarrow> string \<Rightarrow> nat \<Rightarrow> int" where
  "AddOrReplaceContext_idx [] name i = -1"
| "AddOrReplaceContext_idx (elem # rest) name i =
     (if SidekickContext.Name elem = name then int i else AddOrReplaceContext_idx rest name (Suc i))"

definition AddOrReplaceContext :: "SidekickConfig \<Rightarrow> SidekickContext \<Rightarrow> SidekickConfig" where
  "AddOrReplaceContext c ctx =
     (let idx = AddOrReplaceContext_idx (Contexts c) (SidekickContext.Name ctx) 0
      in if idx = -1 then c\<lparr>Contexts := Contexts c @ [ctx]\<rparr>
         else c\<lparr>Contexts := (Contexts c)[nat idx := ctx]\<rparr>)"

fun AddOrReplaceServer_idx :: "SidekickServer list \<Rightarrow> string \<Rightarrow> nat \<Rightarrow> int" where
  "AddOrReplaceServer_idx [] name i = -1"
| "AddOrReplaceServer_idx (elem # rest) name i =
     (if SidekickServer.Name elem = name then int i else AddOrReplaceServer_idx rest name (Suc i))"

definition AddOrReplaceServer :: "SidekickConfig \<Rightarrow> SidekickServer \<Rightarrow> SidekickConfig" where
  "AddOrReplaceServer c s =
     (let idx = AddOrReplaceServer_idx (Servers c) (SidekickServer.Name s) 0
      in if idx = -1 then c\<lparr>Servers := Servers c @ [s]\<rparr>
         else c\<lparr>Servers := (Servers c)[nat idx := s]\<rparr>)"

section \<open>The init workflow (cmd/initialize/initialize.go)\<close>

text \<open>
  A function that receives from a channel either returns or stays blocked in the receive.
\<close>

datatype 'a completion = Blocked | Returned 'a

definition stage1LocalReqs :: "('w, 'c) env \<Rightarrow> ('w, 'c) sys \<Rightarrow> error option \<times> ('w, 'c) sys" where
  "stage1LocalReqs env s0 =
     (case extern (CLookPath ''sops'') (exec_LookPath env ''sops'') s0 of (sops, s1) \<Rightarrow>
      (case (case sops of
               Inr _ \<Rightarrow> (None, s1)
             | Inl _ \<Rightarrow> extern (CExecRun ''brew'' [''install'', ''sops''])
                          (exec_Run env ''brew'' [''install'', ''sops'']) s1) of
         (Some err, s2) \<Rightarrow> (Some (''failed to install sops: '' @ err), s2)
       | (None, s2) \<Rightarrow>
      (case extern (CLookPath ''age'') (exec_LookPath env ''age'') s2 of (age, s3) \<Rightarrow>
      (case (case age of
               Inr _ \<Rightarrow> (None, s3)
             | Inl _ \<Rightarrow> extern (CExecRun ''brew'' [''install'', ''age''])
                          (exec_Run env ''brew'' [''install'', ''age'']) s3) of
         (Some err, s4) \<Rightarrow> (Some (''failed to install age: '' @ err), s4)
       | (None, s4) \<Rightarrow> (None, s4)))))"

fun stage2Login_loop ::
  "('w, 'c) env \<Rightarrow> string \<Rightarrow> string list \<Rightarrow> ('w, 'c) sys \<Rightarrow> (error + 'c \<times> string) \<times> ('w, 'c) sys" where
  "stage2Login_loop env server [] s = (Inl ''unable to establish SSH connection'', s)"
| "stage2Login_loop env server (user # users) s =
     (case extern (CLogin server user) (utils_Login env server user) s of
        (Inr client, s') \<Rightarrow> (Inr (client, user), s')
      | (Inl err, s') \<Rightarrow> stage2Login_loop env server users s')"

definition stage2Login ::
  "('w, 'c) env \<Rightarrow> string \<Rightarrow> ('w, 'c) sys \<Rightarrow> (error + 'c \<times> string) \<times> ('w, 'c) sys" where
  "stage2Login env server s = stage2Login_loop env server [''root'', ''sidekick''] s"

definition stage3UserSetup ::
  "('w, 'c) env \<Rightarrow> 'c \<Rightarrow> string \<Rightarrow> ('w, 'c) sys \<Rightarrow> error option completion \<times> ('w, 'c) sys" where
  "stage3UserSetup env client loggedInUser s0 =
     (case extern (CRunCommand client ''id -u sidekick'') (utils_RunCommand env client ''id -u sidekick'') s0 of
        ((outChan, err), s1) \<Rightarrow>
      (case (if err \<noteq> None then Returned False
             else (case outChan of
                     None \<Rightarrow> Blocked
                   | Some output \<Rightarrow> Returned (if output = [] then False else True))) of
         Blocked \<Rightarrow> (Blocked, s1)
       | Returned hasSidekickUser \<Rightarrow>
           if \<not> hasSidekickUser \<and> loggedInUser = ''root'' then
             (case extern (CRunStage client (utils_UsersetupStage env))
                     (utils_RunStage env client (utils_UsersetupStage env)) s1 of
                (Some err, s2) \<Rightarrow> (Returned (Some err), s2)
              | (None, s2) \<Rightarrow> (Returned None, s2))
           else (Returned None, s1)))"

text \<open>
  \<^verbatim>\<open>strings.Split\<close> with a separator of one byte, and \<^verbatim>\<open>strings.ReplaceAll\<close> of one byte by
  a string: the two uses of the source.
\<close>

fun strings_Split :: "string \<Rightarrow> char \<Rightarrow> string list" where
  "strings_Split [] sep = [[]]"
| "strings_Split (x # xs) sep =
     (if x = sep then [] # strings_Split xs sep
      else (case strings_Split xs sep of
              w # ws \<Rightarrow> (x # w) # ws
            | [] \<Rightarrow> [[x]]))"

definition strings_ReplaceAll :: "string \<Rightarrow> char \<Rightarrow> string \<Rightarrow> string" where
  "strings_ReplaceAll s old new = concat (map (\<lambda>ch. if ch = old then new else [ch]) s)"

definition distroCommand :: string where
  \<open>distroCommand = ''grep \'^ID=\' /etc/os-release | awk -F\'=\' \'{print $2}'' @ [CHR 0x27]\<close>

text \<open>
  \<^verbatim>\<open>stage4VPSSetup\<close> writes through the pointer \<^verbatim>\<open>server\<close>: the host identity as the
  stage leaves it is returned next to the stage's result, on every path.
\<close>

definition stage4VPSSetup ::
  "('w, 'c) env \<Rightarrow> 'c \<Rightarrow> SidekickServer \<Rightarrow> ('w, 'c) sys
     \<Rightarrow> error option completion \<times> SidekickServer \<times> ('w, 'c) sys" where
  "stage4VPSSetup env client server s0 =
     (case extern (CRunCommand client distroCommand) (utils_RunCommand env client distroCommand) s0 of
        ((outChan, _), s1) \<Rightarrow>
      (case outChan of
         None \<Rightarrow> (Blocked, server, s1)
       | Some linuxDistro \<Rightarrow>
      (let server1 = server\<lparr>Distro := linuxDistro\<rparr> in
      (case extern (CRunCommand client ''uname -m'') (utils_RunCommand env client ''uname -m'') s1 of
        ((cmdOutChan, _), s2) \<Rightarrow>
      (case cmdOutChan of
         None \<Rightarrow> (Blocked, server1, s2)
       | Some arch \<Rightarrow>
      (let server2 = (if arch = ''x86_64'' then server1\<lparr>PlatformId := ''linux/amd64''\<rparr> else server1);
           server3 = (if arch = ''aarch64'' then server2\<lparr>PlatformId := ''linux/arm64''\<rparr> else server2) in
      (case extern (CRunCommandsWithTUIHook client (Commands (utils_SetupStage env)))
              (utils_RunCommandsWithTUIHook env client (Commands (utils_SetupStage env))) s2 of
         (Some err, s3) \<Rightarrow> (Returned (Some err), server3, s3)
       | (None, s3) \<Rightarrow>
           if PublicKey server3 = [] \<or> SecretKey server3 = [] then
             (case extern (CExecOutput ''age-keygen'') (exec_Output env ''age-keygen'') s3 of
                (Inl err, s4) \<Rightarrow> (Returned (Some err), server3, s4)
              | (Inr outStr, s4) \<Rightarrow>
                  (let lines = strings_Split outStr (CHR 0x0A) in
                   if length lines \<ge> 3 then
                     (let server4 = server3\<lparr>SecretKey := lines ! 2\<rparr>;
                          parts = strings_Split (lines ! 1) (CHR '':'') in
                      if length parts > 1 then
                        (Returned None,
                         server4\<lparr>PublicKey := strings_ReplaceAll (parts ! 1) (CHR '' '') []\<rparr>, s4)
                      else (Returned None, server4, s4))
                   else (Returned None, server3, s4)))
           else (Returned None, server3, s3))))))))"

definition dockerProbe :: string where
  \<open>dockerProbe = ''command -v docker &> /dev/null && command -v docker compose &> /dev/null && echo "1" || echo "0"''\<close>

definition stage5Docker ::
  "('w, 'c) env \<Rightarrow> 'c \<Rightarrow> ('w, 'c) sys \<Rightarrow> error option completion \<times> ('w, 'c) sys" where
  "stage5Docker env client s0 =
     (case extern (CRunCommand client dockerProbe) (utils_RunCommand env client dockerProbe) s0 of
        ((outChan, err), s1) \<Rightarrow>
      (case (if err = None then
               (case outChan of
                  None \<Rightarrow> Blocked
                | Some output \<Rightarrow> Returned (if output = ''1'' then True else False))
             else Returned False) of
         Blocked \<Rightarrow> (Blocked, s1)
       | Returned dockerReady \<Rightarrow>
           if \<not> dockerReady then
             (case extern (CRunCommandsWithTUIHook client (Commands (utils_DockerStage env)))
                     (utils_RunCommandsWithTUIHook env client (Commands (utils_DockerStage env))) s1 of
                (Some err, s2) \<Rightarrow> (Returned (Some err), s2)
              | (None, s2) \<Rightarrow> (Returned None, s2))
           else (Returned None, s1)))"

definition traefikProbe :: string where
  \<open>traefikProbe = ''[ -d "traefik" ] && echo "1" || echo "0"''\<close>

definition stage6Traefik ::
  "('w, 'c) env \<Rightarrow> 'c \<Rightarrow> string \<Rightarrow> ('w, 'c) sys \<Rightarrow> error option completion \<times> ('w, 'c) sys" where
  "stage6Traefik env client email s0 =
     (case extern (CRunCommand client traefikProbe) (utils_RunCommand env client traefikProbe) s0 of
        ((outChan, err), s1) \<Rightarrow>
      (case (if err = None then
               (case outChan of
                  None \<Rightarrow> Blocked
                | Some output \<Rightarrow> Returned (if output = ''1'' then True else False))
             else Returned False) of
         Blocked \<Rightarrow> (Blocked, s1)
       | Returned traefikSetup \<Rightarrow>
           if \<not> traefikSetup then
             (let traefikStage = utils_GetTraefikStage env email in
              (case extern (CRunCommandsWithTUIHook client (Commands traefikStage))
                      (utils_RunCommandsWithTUIHook env client (Commands traefikStage)) s1 of
                 (Some err, s2) \<Rightarrow> (Returned (Some err), s2)
               | (None, s2) \<Rightarrow> (Returned None, s2)))
           else (Returned None, s1)))"

subsection \<open>The background worker of \<^verbatim>\<open>InitCmd.Run\<close>\<close>

text \<open>
  Modelled from the spec: the message types of package render are not among the sources.
  The three kinds are the ones the worker constructs: \<^verbatim>\<open>NextStageMsg{}\<close> (the spec's Advance),
  \<^verbatim>\<open>ErrorMsg{ErrorStr}\<close> (Error) and \<^verbatim>\<open>AllDoneMsg{Message}\<close> (Done).

  The stream is the messages the worker passes to \<^verbatim>\<open>p.Send\<close>, in the order of the calls. The pauses
  (\<^verbatim>\<open>time.Sleep\<close>) are left out. What \<^verbatim>\<open>RunCommandsWithTUIHook\<close> shows through \<^verbatim>\<open>p\<close>
  belongs to that function and is not part of this stream.
\<close>

datatype msg = NextStageMsg | ErrorMsg string | AllDoneMsg string

text \<open>
  What the worker leaves behind: the messages sent, whether the goroutine returned (or is
  blocked in a receive), the registry behind the pointer \<^verbatim>\<open>config\<close> and the captured
  variable \<^verbatim>\<open>sidekickServer\<close>.
\<close>

record worker_result =
  sent :: "msg list"
  returned :: bool
  registry :: SidekickConfig
  identity :: SidekickServer

definition worker ::
  "('w, 'c) env \<Rightarrow> SidekickConfig \<Rightarrow> string \<Rightarrow> string \<Rightarrow> SidekickServer \<Rightarrow> ('w, 'c) sys
     \<Rightarrow> worker_result \<times> ('w, 'c) sys" where
  "worker env config server certEmail sidekickServer s0 =
     (case stage1LocalReqs env s0 of
        (Some err, s1) \<Rightarrow>
          (\<lparr>sent = [ErrorMsg (''Local requirements check failed: '' @ err)], returned = True,
            registry = config, identity = sidekickServer\<rparr>, s1)
      | (None, s1) \<Rightarrow>
     (let p1 = [NextStageMsg] in
     (case stage2Login env server s1 of
        (Inl err, s2) \<Rightarrow>
          (\<lparr>sent = p1 @ [ErrorMsg (''Login failed: '' @ err)], returned = True,
            registry = config, identity = sidekickServer\<rparr>, s2)
      | (Inr (sshClient, loggedInUser), s2) \<Rightarrow>
     (let p2 = p1 @ [NextStageMsg] in
     (case stage3UserSetup env sshClient loggedInUser s2 of
        (Blocked, s3) \<Rightarrow>
          (\<lparr>sent = p2, returned = False, registry = config, identity = sidekickServer\<rparr>, s3)
      | (Returned (Some err), s3) \<Rightarrow>
          (\<lparr>sent = p2 @ [ErrorMsg (''User setup failed: '' @ err)], returned = True,
            registry = config, identity = sidekickServer\<rparr>, s3)
      | (Returned None, s3) \<Rightarrow>
     (case extern (CLogin server ''sidekick'') (utils_Login env server ''sidekick'') s3 of
        (Inl err, s4) \<Rightarrow>
          (\<lparr>sent = p2 @ [ErrorMsg (''Failed to login as sidekick: '' @ err)], returned = True,
            registry = config, identity = sidekickServer\<rparr>, s4)
      | (Inr sidekickClient, s4) \<Rightarrow>
     (let p3 = p2 @ [NextStageMsg] in
     (case stage4VPSSetup env sidekickClient sidekickServer s4 of
        (Blocked, server4, s5) \<Rightarrow>
          (\<lparr>sent = p3, returned = False, registry = config, identity = server4\<rparr>, s5)
      | (Returned (Some err), server4, s5) \<Rightarrow>
          (\<lparr>sent = p3 @ [ErrorMsg (''VPS setup failed: '' @ err)], returned = True,
            registry = config, identity = server4\<rparr>, s5)
      | (Returned None, server4, s5) \<Rightarrow>
     (let p4 = p3 @ [NextStageMsg] in
     (case stage5Docker env sidekickClient s5 of
        (Blocked, s6) \<Rightarrow>
          (\<lparr>sent = p4, returned = False, registry = config, identity = server4\<rparr>, s6)
      | (Returned (Some err), s6) \<Rightarrow>
          (\<lparr>sent = p4 @ [ErrorMsg (''Docker setup failed: '' @ err)], returned = True,
            registry = config, identity = server4\<rparr>, s6)
      | (Returned None, s6) \<Rightarrow>
     (let p5 = p4 @ [NextStageMsg] in
     (case stage6Traefik env sidekickClient certEmail s6 of
        (Blocked, s7) \<Rightarrow>
          (\<lparr>sent = p5, returned = False, registry = config, identity = server4\<rparr>, s7)
      | (Returned (Some err), s7) \<Rightarrow>
          (\<lparr>sent = p5 @ [ErrorMsg (''Traefik setup failed: '' @ err)], returned = True,
            registry = config, identity = server4\<rparr>, s7)
      | (Returned None, s7) \<Rightarrow>
     (let config1 = AddOrReplaceServer config server4;
          newContext = \<lparr>SidekickContext.Name = SidekickServer.Name server4,
                        Server = SidekickServer.Name server4\<rparr>;
          config2 = AddOrReplaceContext config1 newContext;
          config3 = config2\<lparr>CurrentContext := SidekickContext.Name newContext\<rparr> in
     (case Save env config3 (viper_GetString_config env) s7 of
        (Some err, s8) \<Rightarrow>
          (\<lparr>sent = p5 @ [ErrorMsg (''Failed to write config: '' @ err)], returned = True,
            registry = config3, identity = server4\<rparr>, s8)
      | (None, s8) \<Rightarrow>
          (\<lparr>sent = p5 @ [AllDoneMsg (''VPS Setup Done in '' @ time_Since_start env (world s8) @ '','' @
                    [CHR 0x0A] @ ''Your VPS is ready! You can now run Sidekick launch in your app folder'')],
            returned = True, registry = config3, identity = server4\<rparr>, s8)))))))))))))))"

subsection \<open>\<^verbatim>\<open>InitCmd.Run\<close>\<close>

record flags =
  flag_yes :: bool
  flag_server :: string
  flag_email :: string
  flag_name :: string

text \<open>
  \<^verbatim>\<open>strings.ToLower\<close>, restricted to what the source needs: the bytes \<^verbatim>\<open>A\<close> to \<^verbatim>\<open>Z\<close>
  are lowered and every other byte is kept, where Go lowers every Unicode letter. The
  source only compares the result with \<^verbatim>\<open>"y"\<close>; \<^verbatim>\<open>y\<close> and \<^verbatim>\<open>Y\<close> are the only characters
  that Go lowers to \<^verbatim>\<open>y\<close>, so the comparison has the same outcome.
\<close>

definition strings_ToLower :: "string \<Rightarrow> string" where
  "strings_ToLower s =
     map (\<lambda>ch. let n = (of_char ch :: nat) in if 65 \<le> n \<and> n \<le> 90 then char_of (n + 32) else ch) s"

text \<open>
  \<^verbatim>\<open>InitCmd.Run\<close> up to the end of the background worker. The foreground loop \<^verbatim>\<open>p.Run()\<close>
  only consumes the worker's messages and is not modelled; the result is the worker's, or
  the exit status when the process ends before the worker starts.
\<close>

definition InitCmd_Run ::
  "('w, 'c) env \<Rightarrow> SidekickConfig option \<Rightarrow> flags \<Rightarrow> ('w, 'c) sys \<Rightarrow> worker_result proc \<times> ('w, 'c) sys" where
  "InitCmd_Run env ctxValue fl s0 =
     (case GetSidekickConfigFromCmdContext ctxValue of
        Inl err \<Rightarrow> log_Fatalf err s0
      | Inr config \<Rightarrow>
     (let skipPromptsFlag = flag_yes fl in
     (case (if flag_name fl = [] then
              (case extern CGetRandomName (namesgenerator_GetRandomName env) s0 of (randomName, s) \<Rightarrow>
                 extern (CGenerateTextQuestion ''Please enter a name for your VPS'' randomName [])
                   (render_GenerateTextQuestion env ''Please enter a name for your VPS'' randomName []) s)
            else (flag_name fl, s0)) of
        (name, s1) \<Rightarrow>
     (case (if flag_server fl = [] then
              (case extern (CGenerateTextQuestion ''Please enter the IPv4 Address of your VPS'' [] [])
                      (render_GenerateTextQuestion env ''Please enter the IPv4 Address of your VPS'' [] []) s1 of
                 (server, s) \<Rightarrow>
                   if \<not> utils_IsValidIPAddress env server
                   then log_Fatalf (''You entered an incorrect IP Address - '' @ server) s
                   else (Return server, s))
            else (Return (flag_server fl), s1)) of
        (Exit n, s2) \<Rightarrow> (Exit n, s2)
      | (Return server, s2) \<Rightarrow>
     (case (if flag_email fl = [] then
              (case extern (CGenerateTextQuestion ''Please enter an email for use with TLS certs'' [] [])
                      (render_GenerateTextQuestion env ''Please enter an email for use with TLS certs'' [] []) s2 of
                 (certEmail, s) \<Rightarrow>
                   if certEmail = [] then log_Fatalf ''An email is needed before you proceed'' s
                   else (Return certEmail, s))
            else (Return (flag_email fl), s2)) of
        (Exit n, s3) \<Rightarrow> (Exit n, s3)
      | (Return certEmail, s3) \<Rightarrow>
     (let sidekickServer =
            (case FindServer config name of
               Inr found \<Rightarrow> found
             | Inl err \<Rightarrow> \<lparr>SidekickServer.Name = name, Address = server, CertEmail = certEmail,
                             Distro = [], PlatformId = [], PublicKey = [], SecretKey = []\<rparr>) in
     (case (if SidekickServer.Name sidekickServer = name \<and> Address sidekickServer \<noteq> server \<and>
               PublicKey sidekickServer \<noteq> [] \<and> \<not> skipPromptsFlag then
              (let question = ''The server '' @ [CHR 0x27] @ SidekickServer.Name sidekickServer @ [CHR 0x27] @
                     '' was previously setup with Sidekick using a different address. Would you like to overwrite the settings? (y/n)'' in
               (case extern (CGenerateTextQuestion question ''n'' [])
                       (render_GenerateTextQuestion env question ''n'' []) s3 of
                  (confirm, s) \<Rightarrow>
                    if strings_ToLower confirm \<noteq> ''y''
                    then (Exit 0,
                          fmt_Println ([CHR 0x0A] @ ''You can use a different server name to complete the setup'') s)
                    else (Return (), s)))
            else (Return (), s3)) of
        (Exit n, s4) \<Rightarrow> (Exit n, s4)
      | (Return _, s4) \<Rightarrow>
     (let sidekickServer1 = sidekickServer\<lparr>Address := server\<rparr>;
          sidekickServer2 = sidekickServer1\<lparr>CertEmail := certEmail\<rparr> in
     (case extern (CLogin server ''root'') (utils_Login env server ''root'') s4 of
        (_, s5) \<Rightarrow>
     (case worker env config server certEmail sidekickServer2 s5 of
        (r, s6) \<Rightarrow> (Return r, s6)))))))))))"

section \<open>The config subcommands (cmd/config)\<close>

definition currentContextCmd ::
  "('w, 'c) env \<Rightarrow> SidekickConfig option \<Rightarrow> ('w, 'c) sys \<Rightarrow> unit proc \<times> ('w, 'c) sys" where
  "currentContextCmd env ctxValue s0 =
     (case GetSidekickConfigFromCmdContext ctxValue of
        Inl err \<Rightarrow> pterm_Fatal_Println err s0
      | Inr config \<Rightarrow> (Return (), fmt_Println (CurrentContext config) s0))"

text \<open>
  \<^verbatim>\<open>useContextCmd\<close> runs with exactly one argument (\<^verbatim>\<open>cobra.ExactArgs(1)\<close>), the context
  name. The value \<^verbatim>\<open>Save\<close> returns is dropped by the source. The registry behind the
  pointer is returned.
\<close>

definition useContextCmd ::
  "('w, 'c) env \<Rightarrow> SidekickConfig option \<Rightarrow> string \<Rightarrow> ('w, 'c) sys \<Rightarrow> SidekickConfig proc \<times> ('w, 'c) sys" where
  "useContextCmd env ctxValue arg0 s0 =
     (case GetSidekickConfigFromCmdContext ctxValue of
        Inl err \<Rightarrow> pterm_Fatal_Println err s0
      | Inr config \<Rightarrow>
          (let contextName = arg0;
               config1 = config\<lparr>CurrentContext := contextName\<rparr> in
           (case Save env config1 (viper_GetString_config env) s0 of
              (_, s1) \<Rightarrow> (Return config1, s1))))"

text \<open>The registry \<^verbatim>\<open>migrateCmd\<close> builds from the host identity read from the legacy document.\<close>

definition migrate_newConfig :: "SidekickServer \<Rightarrow> SidekickConfig" where
  "migrate_newConfig serverConfig0 =
     (let serverConfig = serverConfig0\<lparr>SidekickServer.Name := ''default''\<rparr>;
          defaultContext = \<lparr>SidekickContext.Name = ''default'', Server = ''default''\<rparr>
      in \<lparr>Version = ''1'', Servers = [serverConfig], Contexts = [defaultContext],
          CurrentContext = SidekickContext.Name defaultContext\<rparr>)"

definition migrateCmd :: "('w, 'c) env \<Rightarrow> ('w, 'c) sys \<Rightarrow> unit proc \<times> ('w, 'c) sys" where
  "migrateCmd env s0 =
     (case extern (CReadFile (viper_GetString_config env)) (os_ReadFile env (viper_GetString_config env)) s0 of
        (Inl err, s1) \<Rightarrow> pterm_Fatal_Println err s1
      | (Inr content, s1) \<Rightarrow>
     (case yaml_Unmarshal_Server env content of
        (serverConfig, Some err) \<Rightarrow> pterm_Fatal_Println err s1
      | (serverConfig, None) \<Rightarrow>
     (case Print env (migrate_newConfig serverConfig) s1 of
        (Some err, s2) \<Rightarrow> pterm_Fatal_Println err s2
      | (None, s2) \<Rightarrow> (Return (), s2))))"

section \<open>The root command (cmd/root.go)\<close>

text \<open>A command as \<^verbatim>\<open>initConfig\<close> sees it: its name and the name of its parent, if any.\<close>

record cmd =
  cmd_Name :: string
  cmd_Parent :: "string option"

definition requireConfigFile :: "cmd \<Rightarrow> bool" where
  "requireConfigFile c =
     (let cmdName = cmd_Name c in
      if cmdName = ''init'' \<or> cmdName = ''help'' then False
      else (case cmd_Parent c of
              Some parentName \<Rightarrow> if parentName = ''config'' \<and> cmdName = ''migrate'' then False else True
            | None \<Rightarrow> True))"

definition shouldSkipConfigVersionCheck :: "cmd \<Rightarrow> bool" where
  "shouldSkipConfigVersionCheck c =
     (let cmdName = cmd_Name c in
      if cmdName = ''help'' then True
      else (case cmd_Parent c of
              Some parentName \<Rightarrow> if parentName = ''config'' \<and> cmdName = ''migrate'' then True else False
            | None \<Rightarrow> False))"

text \<open>
  \<^verbatim>\<open>initConfig\<close> returns the registry it stores in the command's context. After a failed
  \<^verbatim>\<open>yaml.Unmarshal\<close> the source only formats a message (\<^verbatim>\<open>pterm.Fatal.Sprintf\<close>) and goes on
  with the registry as the decoder left it.
\<close>

definition initConfig :: "('w, 'c) env \<Rightarrow> cmd \<Rightarrow> ('w, 'c) sys \<Rightarrow> SidekickConfig proc \<times> ('w, 'c) sys" where
  "initConfig env c s0 =
     (let configPath = viper_GetString_config env in
     (case extern (CReadFile configPath) (os_ReadFile env configPath) s0 of
        (r, s1) \<Rightarrow>
     (case (case r of
              Inl err \<Rightarrow>
                if requireConfigFile c then pterm_Fatal_Println ''Sidekick config not found - Run sidekick init'' s1
                else (Return \<lparr>Version = ''1'', Servers = [], Contexts = [], CurrentContext = []\<rparr>, s1)
            | Inr content \<Rightarrow>
                (case yaml_Unmarshal_Config env content of (config, err) \<Rightarrow> (Return config, s1))) of
        (Exit n, s2) \<Rightarrow> (Exit n, s2)
      | (Return config, s2) \<Rightarrow>
          if Version config \<noteq> ''1'' \<and> \<not> shouldSkipConfigVersionCheck c
          then pterm_Fatal_Println (''An older version of the config file found. Please run '' @ [CHR 0x27] @
                       ''sidekick config migrate'' @ [CHR 0x27] @ ''.'') s2
          else (Return config, s2))))"

text \<open>
  \<^verbatim>\<open>Execute\<close> for the subcommands of \<^verbatim>\<open>config\<close>: the exit status of the process. The
  command library checks the arguments (\<^verbatim>\<open>use\<close> takes exactly one), runs the root's
  \<^verbatim>\<open>PersistentPreRun\<close> on the subcommand and then the subcommand's \<^verbatim>\<open>Run\<close>, handing it the
  context \<^verbatim>\<open>initConfig\<close> has set; an error of the library ends the process with status 1,
  and a \<^verbatim>\<open>Run\<close> that returns lets \<^verbatim>\<open>main\<close> return, which is status 0.
\<close>

datatype invocation = ConfigCurrent | ConfigUse "string list" | ConfigMigrate

definition Execute :: "('w, 'c) env \<Rightarrow> invocation \<Rightarrow> ('w, 'c) sys \<Rightarrow> int \<times> ('w, 'c) sys" where
  "Execute env invoked s0 =
     (case invoked of
        ConfigCurrent \<Rightarrow>
          (case initConfig env \<lparr>cmd_Name = ''current'', cmd_Parent = Some ''config''\<rparr> s0 of
             (Exit n, s1) \<Rightarrow> (n, s1)
           | (Return config, s1) \<Rightarrow>
               (case currentContextCmd env (Some config) s1 of
                  (Exit n, s2) \<Rightarrow> (n, s2)
                | (Return _, s2) \<Rightarrow> (0, s2)))
      | ConfigUse args \<Rightarrow>
          if length args \<noteq> 1 then (1, s0)
          else
          (case initConfig env \<lparr>cmd_Name = ''use'', cmd_Parent = Some ''config''\<rparr> s0 of
             (Exit n, s1) \<Rightarrow> (n, s1)
           | (Return config, s1) \<Rightarrow>
               (case useContextCmd env (Some config) (args ! 0) s1 of
                  (Exit n, s2) \<Rightarrow> (n, s2)
                | (Return _, s2) \<Rightarrow> (0, s2)))
      | ConfigMigrate \<Rightarrow>
          (case initConfig env \<lparr>cmd_Name = ''migrate'', cmd_Parent = Some ''config''\<rparr> s0 of
             (Exit n, s1) \<Rightarrow> (n, s1)
           | (Return config, s1) \<Rightarrow>
               (case migrateCmd env s1 of
                  (Exit n, s2) \<Rightarrow> (n, s2)
                | (Return _, s2) \<Rightarrow> (0, s2))))"

section \<open>A simulated host\<close>

text \<open>
  A concrete world for running the definitions: the world is the list of the commands
  that have been run on the host so far, a client handle is the name of the user logged
  in, and every probe answers from that list. All local calls succeed; no registry file
  exists yet.
\<close>

definition host_RunCommand :: "string \<Rightarrow> string \<Rightarrow> string list \<Rightarrow> (chan \<times> error option) \<times> string list" where
  "host_RunCommand client command w =
     ((Some (if command = ''uname -m'' then ''x86_64''
             else if command = distroCommand then ''ubuntu''
             else if command = ''id -u sidekick'' then (if ''useradd sidekick'' \<in> set w then ''1001'' else [])
             else if command = dockerProbe then (if ''install docker'' \<in> set w then ''1'' else ''0'')
             else if command = traefikProbe then (if ''mkdir traefik'' \<in> set w then ''1'' else ''0'')
             else []), None), w)"

definition host_Login :: "string \<Rightarrow> string \<Rightarrow> string list \<Rightarrow> (error + string) \<times> string list" where
  "host_Login server user w =
     (if user = ''root'' \<or> ''useradd sidekick'' \<in> set w then Inr user
      else Inl ''ssh: unable to authenticate'', w)"

definition host_Marshal :: "SidekickConfig \<Rightarrow> error + string" where
  "host_Marshal c =
     Inr (''version: '' @ Version c @ '' currentContext: '' @ CurrentContext c @
          '' servers:'' @ concat (map (\<lambda>x. '' '' @ SidekickServer.Name x) (Servers c)) @
          '' contexts:'' @ concat (map (\<lambda>x. '' '' @ SidekickContext.Name x) (Contexts c)))"

definition host :: "(string list, string) env" where
  "host =
     \<lparr>exec_LookPath = (\<lambda>file w. (Inr (''/usr/local/bin/'' @ file), w)),
      exec_Run = (\<lambda>name args w. (None, w)),
      exec_Output = (\<lambda>name w. (Inr (''# created: 2024-01-01'' @ [CHR 0x0A] @ ''# public key: age1abc'' @ [CHR 0x0A] @
                                     ''AGE-SECRET-KEY-1XYZ'' @ [CHR 0x0A]), w)),
      utils_Login = host_Login,
      utils_RunCommand = host_RunCommand,
      utils_RunStage = (\<lambda>client st w. (None, w @ Commands st)),
      utils_RunCommandsWithTUIHook = (\<lambda>client commands w. (None, w @ commands)),
      utils_IsValidIPAddress = (\<lambda>ip. True),
      utils_UsersetupStage = \<lparr>Commands = [''useradd sidekick'']\<rparr>,
      utils_SetupStage = \<lparr>Commands = [''apt-get update'']\<rparr>,
      utils_DockerStage = \<lparr>Commands = [''install docker'']\<rparr>,
      utils_GetTraefikStage = (\<lambda>email. \<lparr>Commands = [''mkdir traefik'', ''echo '' @ email]\<rparr>),
      render_GenerateTextQuestion = (\<lambda>question dflt hint w. (dflt, w)),
      namesgenerator_GetRandomName = (\<lambda>w. (''happy_turing'', w)),
      os_ReadFile = (\<lambda>path w. (Inl ''no such file or directory'', w)),
      os_WriteFile = (\<lambda>path data w. (None, w)),
      os_Stdout_Write = (\<lambda>data w. (None, w)),
      yaml_Marshal = host_Marshal,
      yaml_Unmarshal_Config = (\<lambda>content. (\<lparr>Version = ''1'', Servers = [], Contexts = [], CurrentContext = content\<rparr>, None)),
      yaml_Unmarshal_Server = (\<lambda>content. (\<lparr>SidekickServer.Name = [], Address = content, CertEmail = [],
                                               Distro = [], PlatformId = [], PublicKey = [], SecretKey = []\<rparr>, None)),
      viper_GetString_config = ''/home/u/.config/sidekick/default.yaml'',
      time_Since_start = (\<lambda>w. ''42s'')\<rparr>"

definition fresh :: "(string list, string) sys" where
  "fresh = \<lparr>world = [], calls = []\<rparr>"

definition emptyRegistry :: SidekickConfig where
  "emptyRegistry = \<lparr>Version = ''1'', Servers = [], Contexts = [], CurrentContext = []\<rparr>"

definition box :: "string \<Rightarrow> string \<Rightarrow> SidekickServer" where
  "box name address =
     \<lparr>SidekickServer.Name = name, Address = address, CertEmail = ''a@b.com'', Distro = ''ubuntu'',
      PlatformId = ''linux/amd64'', PublicKey = ''age1old'', SecretKey = ''AGE-SECRET-KEY-1OLD''\<rparr>"

definition twoBoxes :: SidekickConfig where
  "twoBoxes =
     \<lparr>Version = ''1'', Servers = [box ''box1'' ''203.0.113.5'', box ''box2'' ''203.0.113.6''],
      Contexts = [\<lparr>SidekickContext.Name = ''box1'', Server = ''box1''\<rparr>,
                  \<lparr>SidekickContext.Name = ''box2'', Server = ''box2''\<rparr>],
      CurrentContext = ''box1''\<rparr>"

text \<open>Variants of the simulated host.\<close>

definition rootDisabled :: "(string list, string) env" where
  "rootDisabled =
     host\<lparr>utils_Login := (\<lambda>server user w.
             (if user = ''sidekick'' then Inr user else Inl ''ssh: unable to authenticate'', w))\<rparr>"

definition unreachable :: "(string list, string) env" where
  "unreachable = host\<lparr>utils_Login := (\<lambda>server user w. (Inl ''dial tcp: i/o timeout'', w))\<rparr>"

definition probesDown :: "(string list, string) env" where
  "probesDown =
     host\<lparr>utils_RunCommand := (\<lambda>client command w.
             if command = dockerProbe \<or> command = traefikProbe \<or> command = ''id -u sidekick''
             then ((None, Some ''ssh: session closed''), w)
             else host_RunCommand client command w)\<rparr>"

definition newBox :: SidekickServer where
  "newBox =
     \<lparr>SidekickServer.Name = ''box1'', Address = ''203.0.113.5'', CertEmail = ''a@b.com'',
      Distro = [], PlatformId = [], PublicKey = [], SecretKey = []\<rparr>"

definition armHost :: "(string list, string) env" where
  "armHost =
     host\<lparr>utils_RunCommand := (\<lambda>client command w.
             if command = ''uname -m'' then ((Some ''aarch64'', None), w)
             else host_RunCommand client command w)\<rparr>"

definition riscvHost :: "(string list, string) env" where
  "riscvHost =
     host\<lparr>utils_RunCommand := (\<lambda>client command w.
             if command = ''uname -m'' then ((Some ''riscv64'', None), w)
             else host_RunCommand client command w)\<rparr>"

definition readOnlyRegistry :: "(string list, string) env" where
  "readOnlyRegistry =
     host\<lparr>os_ReadFile := (\<lambda>path w. (Inr ''box1'', w)),
          os_WriteFile := (\<lambda>path data w. (Some ''open: permission denied'', w))\<rparr>"

definition legacyFile :: "(string list, string) env" where
  "legacyFile = host\<lparr>os_ReadFile := (\<lambda>path w. (Inr ''203.0.113.5'', w))\<rparr>"

definition provisioned :: "(string list, string) sys" where
  "provisioned =
     \<lparr>world = [''useradd sidekick'', ''apt-get update'', ''install docker'', ''mkdir traefik'', ''echo a@b.com''],
      calls = []\<rparr>"

definition dockerInstallFails :: "(string list, string) env" where
  "dockerInstallFails =
     host\<lparr>utils_RunCommandsWithTUIHook := (\<lambda>client commands w.
             if commands = [''install docker''] then (Some ''Process exited with status 100'', w)
             else (None, w @ commands))\<rparr>"

definition silentTraefikProbe :: "(string list, string) env" where
  "silentTraefikProbe =
     host\<lparr>utils_RunCommand := (\<lambda>client command w.
             if command = traefikProbe then ((None, None), w)
             else host_RunCommand client command w)\<rparr>"

text \<open>The scenario of a first \<^verbatim>\<open>init\<close> on the simulated host, and what it leaves.\<close>

definition scenarioBox :: SidekickServer where
  "scenarioBox =
     \<lparr>SidekickServer.Name = ''box1'', Address = ''203.0.113.5'', CertEmail = ''a@b.com'',
      Distro = ''ubuntu'', PlatformId = ''linux/amd64'', PublicKey = ''age1abc'',
      SecretKey = ''AGE-SECRET-KEY-1XYZ''\<rparr>"

definition scenarioResult :: worker_result where
  "scenarioResult =
     \<lparr>sent = [NextStageMsg, NextStageMsg, NextStageMsg, NextStageMsg, NextStageMsg,
              AllDoneMsg (''VPS Setup Done in 42s,'' @ [CHR 0x0A] @
                ''Your VPS is ready! You can now run Sidekick launch in your app folder'')],
      returned = True,
      registry = \<lparr>Version = ''1'', Servers = [scenarioBox],
                   Contexts = [\<lparr>SidekickContext.Name = ''box1'', Server = ''box1''\<rparr>],
                   CurrentContext = ''box1''\<rparr>,
      identity = scenarioBox\<rparr>"

section \<open>Upsert into the registry\<close>

lemma AddOrReplaceServer_idx_none:
  "\<forall>e\<in>set xs. SidekickServer.Name e \<noteq> n \<Longrightarrow> AddOrReplaceServer_idx xs n i = -1"
  by (induction xs arbitrary: i) auto

lemma AddOrReplaceServer_idx_first:
  "\<exists>e\<in>set xs. SidekickServer.Name e = n \<Longrightarrow>
   \<exists>k<length xs. AddOrReplaceServer_idx xs n i = int (i + k) \<and> SidekickServer.Name (xs ! k) = n \<and>
      (\<forall>j<k. SidekickServer.Name (xs ! j) \<noteq> n)"
proof (induction xs arbitrary: i)
  case Nil
  then show ?case by simp
next
  case (Cons x xs)
  show ?case
  proof (cases "SidekickServer.Name x = n")
    case True
    then have "AddOrReplaceServer_idx (x # xs) n i = int (i + 0) \<and> SidekickServer.Name ((x # xs) ! 0) = n \<and>
      (\<forall>j<0. SidekickServer.Name ((x # xs) ! j) \<noteq> n)" by simp
    then show ?thesis by blast
  next
    case False
    with Cons.prems have "\<exists>e\<in>set xs. SidekickServer.Name e = n" by auto
    from Cons.IH[OF this, of "Suc i"] obtain k where k: "k < length xs"
      "AddOrReplaceServer_idx xs n (Suc i) = int (Suc i + k)" "SidekickServer.Name (xs ! k) = n"
      "\<forall>j<k. SidekickServer.Name (xs ! j) \<noteq> n" by blast
    have "\<forall>j<Suc k. SidekickServer.Name ((x # xs) ! j) \<noteq> n"
      using False k(4) by (auto simp: nth_Cons split: nat.splits)
    with k False have "Suc k < length (x # xs) \<and> AddOrReplaceServer_idx (x # xs) n i = int (i + Suc k) \<and>
       SidekickServer.Name ((x # xs) ! Suc k) = n \<and> (\<forall>j<Suc k. SidekickServer.Name ((x # xs) ! j) \<noteq> n)"
      by simp
    then show ?thesis by blast
  qed
qed

lemma AddOrReplaceServer_replace:
  assumes "\<exists>e\<in>set (Servers c). SidekickServer.Name e = SidekickServer.Name s"
  shows "\<exists>k<length (Servers c). SidekickServer.Name (Servers c ! k) = SidekickServer.Name s \<and>
      (\<forall>j<k. SidekickServer.Name (Servers c ! j) \<noteq> SidekickServer.Name s) \<and>
      Servers (AddOrReplaceServer c s) = (Servers c)[k := s]"
proof -
  from AddOrReplaceServer_idx_first[OF assms, of 0] obtain k where k: "k < length (Servers c)"
    "AddOrReplaceServer_idx (Servers c) (SidekickServer.Name s) 0 = int k"
    "SidekickServer.Name (Servers c ! k) = SidekickServer.Name s"
    "\<forall>j<k. SidekickServer.Name (Servers c ! j) \<noteq> SidekickServer.Name s" by auto
  have "Servers (AddOrReplaceServer c s) = (Servers c)[k := s]"
    using k(2) by (simp add: AddOrReplaceServer_def)
  with k show ?thesis by blast
qed

lemma AddOrReplaceServer_append:
  assumes "\<forall>e\<in>set (Servers c). SidekickServer.Name e \<noteq> SidekickServer.Name s"
  shows "Servers (AddOrReplaceServer c s) = Servers c @ [s]"
  using AddOrReplaceServer_idx_none[OF assms, of 0] by (simp add: AddOrReplaceServer_def)

lemma AddOrReplaceServer_frame:
  "Contexts (AddOrReplaceServer c s) = Contexts c \<and> Version (AddOrReplaceServer c s) = Version c \<and>
   CurrentContext (AddOrReplaceServer c s) = CurrentContext c"
  by (simp add: AddOrReplaceServer_def Let_def)

lemma AddOrReplaceContext_idx_none:
  "\<forall>e\<in>set xs. SidekickContext.Name e \<noteq> n \<Longrightarrow> AddOrReplaceContext_idx xs n i = -1"
  by (induction xs arbitrary: i) auto

lemma AddOrReplaceContext_idx_first:
  "\<exists>e\<in>set xs. SidekickContext.Name e = n \<Longrightarrow>
   \<exists>k<length xs. AddOrReplaceContext_idx xs n i = int (i + k) \<and> SidekickContext.Name (xs ! k) = n \<and>
      (\<forall>j<k. SidekickContext.Name (xs ! j) \<noteq> n)"
proof (induction xs arbitrary: i)
  case Nil
  then show ?case by simp
next
  case (Cons x xs)
  show ?case
  proof (cases "SidekickContext.Name x = n")
    case True
    then have "AddOrReplaceContext_idx (x # xs) n i = int (i + 0) \<and> SidekickContext.Name ((x # xs) ! 0) = n \<and>
      (\<forall>j<0. SidekickContext.Name ((x # xs) ! j) \<noteq> n)" by simp
    then show ?thesis by blast
  next
    case False
    with Cons.prems have "\<exists>e\<in>set xs. SidekickContext.Name e = n" by auto
    from Cons.IH[OF this, of "Suc i"] obtain k where k: "k < length xs"
      "AddOrReplaceContext_idx xs n (Suc i) = int (Suc i + k)" "SidekickContext.Name (xs ! k) = n"
      "\<forall>j<k. SidekickContext.Name (xs ! j) \<noteq> n" by blast
    have "\<forall>j<Suc k. SidekickContext.Name ((x # xs) ! j) \<noteq> n"
      using False k(4) by (auto simp: nth_Cons split: nat.splits)
    with k False have "Suc k < length (x # xs) \<and> AddOrReplaceContext_idx (x # xs) n i = int (i + Suc k) \<and>
       SidekickContext.Name ((x # xs) ! Suc k) = n \<and> (\<forall>j<Suc k. SidekickContext.Name ((x # xs) ! j) \<noteq> n)"
      by simp
    then show ?thesis by blast
  qed
qed

lemma AddOrReplaceContext_replace:
  assumes "\<exists>e\<in>set (Contexts c). SidekickContext.Name e = SidekickContext.Name x"
  shows "\<exists>k<length (Contexts c). SidekickContext.Name (Contexts c ! k) = SidekickContext.Name x \<and>
      (\<forall>j<k. SidekickContext.Name (Contexts c ! j) \<noteq> SidekickContext.Name x) \<and>
      Contexts (AddOrReplaceContext c x) = (Contexts c)[k := x]"
proof -
  from AddOrReplaceContext_idx_first[OF assms, of 0] obtain k where k: "k < length (Contexts c)"
    "AddOrReplaceContext_idx (Contexts c) (SidekickContext.Name x) 0 = int k"
    "SidekickContext.Name (Contexts c ! k) = SidekickContext.Name x"
    "\<forall>j<k. SidekickContext.Name (Contexts c ! j) \<noteq> SidekickContext.Name x" by auto
  have "Contexts (AddOrReplaceContext c x) = (Contexts c)[k := x]"
    using k(2) by (simp add: AddOrReplaceContext_def)
  with k show ?thesis by blast
qed

lemma AddOrReplaceContext_append:
  assumes "\<forall>e\<in>set (Contexts c). SidekickContext.Name e \<noteq> SidekickContext.Name x"
  shows "Contexts (AddOrReplaceContext c x) = Contexts c @ [x]"
  using AddOrReplaceContext_idx_none[OF assms, of 0] by (simp add: AddOrReplaceContext_def)

lemma AddOrReplaceContext_frame:
  "Servers (AddOrReplaceContext c x) = Servers c \<and> Version (AddOrReplaceContext c x) = Version c \<and>
   CurrentContext (AddOrReplaceContext c x) = CurrentContext c"
  by (simp add: AddOrReplaceContext_def Let_def)

text \<open>
  Claim C2. \<^verbatim>\<open>AddOrReplaceServer\<close> (and likewise \<^verbatim>\<open>AddOrReplaceContext\<close>): when some entry
  has the name of the value passed, the first such entry (index \<open>k\<close>, no earlier entry
  has the name) is overwritten in place, so the length and every other position are
  unchanged; when no entry has the name, the value is appended at the end and the length
  grows by one. In both cases the length changes by at most one and nothing else in the
  registry changes.
\<close>

theorem AddOrReplace_upsert:
  "((\<exists>e\<in>set (Servers c). SidekickServer.Name e = SidekickServer.Name s) \<longrightarrow>
      (\<exists>k<length (Servers c).
          SidekickServer.Name (Servers c ! k) = SidekickServer.Name s \<and>
          (\<forall>j<k. SidekickServer.Name (Servers c ! j) \<noteq> SidekickServer.Name s) \<and>
          Servers (AddOrReplaceServer c s) = (Servers c)[k := s] \<and>
          (\<forall>j<length (Servers c). j \<noteq> k \<longrightarrow> Servers (AddOrReplaceServer c s) ! j = Servers c ! j)) \<and>
      length (Servers (AddOrReplaceServer c s)) = length (Servers c)) \<and>
   ((\<forall>e\<in>set (Servers c). SidekickServer.Name e \<noteq> SidekickServer.Name s) \<longrightarrow>
      Servers (AddOrReplaceServer c s) = Servers c @ [s] \<and>
      length (Servers (AddOrReplaceServer c s)) = length (Servers c) + 1) \<and>
   length (Servers c) \<le> length (Servers (AddOrReplaceServer c s)) \<and>
   length (Servers (AddOrReplaceServer c s)) \<le> length (Servers c) + 1 \<and>
   Contexts (AddOrReplaceServer c s) = Contexts c \<and>
   Version (AddOrReplaceServer c s) = Version c \<and>
   CurrentContext (AddOrReplaceServer c s) = CurrentContext c \<and>
   ((\<exists>e\<in>set (Contexts c). SidekickContext.Name e = SidekickContext.Name x) \<longrightarrow>
      (\<exists>k<length (Contexts c).
          SidekickContext.Name (Contexts c ! k) = SidekickContext.Name x \<and>
          (\<forall>j<k. SidekickContext.Name (Contexts c ! j) \<noteq> SidekickContext.Name x) \<and>
          Contexts (AddOrReplaceContext c x) = (Contexts c)[k := x] \<and>
          (\<forall>j<length (Contexts c). j \<noteq> k \<longrightarrow> Contexts (AddOrReplaceContext c x) ! j = Contexts c ! j)) \<and>
      length (Contexts (AddOrReplaceContext c x)) = length (Contexts c)) \<and>
   ((\<forall>e\<in>set (Contexts c). SidekickContext.Name e \<noteq> SidekickContext.Name x) \<longrightarrow>
      Contexts (AddOrReplaceContext c x) = Contexts c @ [x] \<and>
      length (Contexts (AddOrReplaceContext c x)) = length (Contexts c) + 1) \<and>
   length (Contexts c) \<le> length (Contexts (AddOrReplaceContext c x)) \<and>
   length (Contexts (AddOrReplaceContext c x)) \<le> length (Contexts c) + 1 \<and>
   Servers (AddOrReplaceContext c x) = Servers c \<and>
   Version (AddOrReplaceContext c x) = Version c \<and>
   CurrentContext (AddOrReplaceContext c x) = CurrentContext c"
proof -
  have srv_hit: "(\<exists>k<length (Servers c).
          SidekickServer.Name (Servers c ! k) = SidekickServer.Name s \<and>
          (\<forall>j<k. SidekickServer.Name (Servers c ! j) \<noteq> SidekickServer.Name s) \<and>
          Servers (AddOrReplaceServer c s) = (Servers c)[k := s] \<and>
          (\<forall>j<length (Servers c). j \<noteq> k \<longrightarrow> Servers (AddOrReplaceServer c s) ! j = Servers c ! j)) \<and>
      length (Servers (AddOrReplaceServer c s)) = length (Servers c)"
    if "\<exists>e\<in>set (Servers c). SidekickServer.Name e = SidekickServer.Name s"
  proof -
    from AddOrReplaceServer_replace[OF that] obtain k where k: "k < length (Servers c)"
      "SidekickServer.Name (Servers c ! k) = SidekickServer.Name s"
      "\<forall>j<k. SidekickServer.Name (Servers c ! j) \<noteq> SidekickServer.Name s"
      "Servers (AddOrReplaceServer c s) = (Servers c)[k := s]" by blast
    from k(4) have "\<forall>j<length (Servers c). j \<noteq> k \<longrightarrow> Servers (AddOrReplaceServer c s) ! j = Servers c ! j"
      by simp
    moreover from k(4) have "length (Servers (AddOrReplaceServer c s)) = length (Servers c)" by simp
    ultimately show ?thesis using k by blast
  qed
  have srv_miss: "Servers (AddOrReplaceServer c s) = Servers c @ [s] \<and>
      length (Servers (AddOrReplaceServer c s)) = length (Servers c) + 1"
    if "\<forall>e\<in>set (Servers c). SidekickServer.Name e \<noteq> SidekickServer.Name s"
    using AddOrReplaceServer_append[OF that] by simp
  have srv_len: "length (Servers c) \<le> length (Servers (AddOrReplaceServer c s)) \<and>
      length (Servers (AddOrReplaceServer c s)) \<le> length (Servers c) + 1"
    by (simp add: AddOrReplaceServer_def Let_def)
  have ctx_hit: "(\<exists>k<length (Contexts c).
          SidekickContext.Name (Contexts c ! k) = SidekickContext.Name x \<and>
          (\<forall>j<k. SidekickContext.Name (Contexts c ! j) \<noteq> SidekickContext.Name x) \<and>
          Contexts (AddOrReplaceContext c x) = (Contexts c)[k := x] \<and>
          (\<forall>j<length (Contexts c). j \<noteq> k \<longrightarrow> Contexts (AddOrReplaceContext c x) ! j = Contexts c ! j)) \<and>
      length (Contexts (AddOrReplaceContext c x)) = length (Contexts c)"
    if "\<exists>e\<in>set (Contexts c). SidekickContext.Name e = SidekickContext.Name x"
  proof -
    from AddOrReplaceContext_replace[OF that] obtain k where k: "k < length (Contexts c)"
      "SidekickContext.Name (Contexts c ! k) = SidekickContext.Name x"
      "\<forall>j<k. SidekickContext.Name (Contexts c ! j) \<noteq> SidekickContext.Name x"
      "Contexts (AddOrReplaceContext c x) = (Contexts c)[k := x]" by blast
    from k(4) have "\<forall>j<length (Contexts c). j \<noteq> k \<longrightarrow> Contexts (AddOrReplaceContext c x) ! j = Contexts c ! j"
      by simp
    moreover from k(4) have "length (Contexts (AddOrReplaceContext c x)) = length (Contexts c)" by simp
    ultimately show ?thesis using k by blast
  qed
  have ctx_miss: "Contexts (AddOrReplaceContext c x) = Contexts c @ [x] \<and>
      length (Contexts (AddOrReplaceContext c x)) = length (Contexts c) + 1"
    if "\<forall>e\<in>set (Contexts c). SidekickContext.Name e \<noteq> SidekickContext.Name x"
    using AddOrReplaceContext_append[OF that] by simp
  have ctx_len: "length (Contexts c) \<le> length (Contexts (AddOrReplaceContext c x)) \<and>
      length (Contexts (AddOrReplaceContext c x)) \<le> length (Contexts c) + 1"
    by (simp add: AddOrReplaceContext_def Let_def)
  show ?thesis
    using srv_hit srv_miss srv_len ctx_hit ctx_miss ctx_len
      AddOrReplaceServer_frame[of c s] AddOrReplaceContext_frame[of c x]
    by blast
qed

theorem AddOrReplace_upsert_witness:
  "(\<exists>e\<in>set (Servers twoBoxes). SidekickServer.Name e = SidekickServer.Name (box ''box2'' ''198.51.100.9'')) \<and>
   Servers (AddOrReplaceServer twoBoxes (box ''box2'' ''198.51.100.9'')) =
     [box ''box1'' ''203.0.113.5'', box ''box2'' ''198.51.100.9''] \<and>
   ''box3'' \<notin> SidekickContext.Name ` set (Contexts twoBoxes) \<and>
   Contexts (AddOrReplaceContext twoBoxes \<lparr>SidekickContext.Name = ''box3'', Server = ''box2''\<rparr>) =
     Contexts twoBoxes @ [\<lparr>SidekickContext.Name = ''box3'', Server = ''box2''\<rparr>] \<and>
   SidekickServer.Name (box ''box3'' ''198.51.100.9'') \<notin> SidekickServer.Name ` set (Servers twoBoxes) \<and>
   Servers (AddOrReplaceServer twoBoxes (box ''box3'' ''198.51.100.9'')) =
     [box ''box1'' ''203.0.113.5'', box ''box2'' ''203.0.113.6'', box ''box3'' ''198.51.100.9''] \<and>
   (\<exists>e\<in>set (Contexts twoBoxes). SidekickContext.Name e = ''box1'') \<and>
   Contexts (AddOrReplaceContext twoBoxes \<lparr>SidekickContext.Name = ''box1'', Server = ''box2''\<rparr>) =
     [\<lparr>SidekickContext.Name = ''box1'', Server = ''box2''\<rparr>, \<lparr>SidekickContext.Name = ''box2'', Server = ''box2''\<rparr>]"
proof -
  let ?s2 = "box ''box2'' ''198.51.100.9''" and ?s3 = "box ''box3'' ''198.51.100.9''"
  let ?x3 = "\<lparr>SidekickContext.Name = ''box3'', Server = ''box2''\<rparr>"
  let ?x1 = "\<lparr>SidekickContext.Name = ''box1'', Server = ''box2''\<rparr>"
  have h1: "\<exists>e\<in>set (Servers twoBoxes). SidekickServer.Name e = SidekickServer.Name ?s2"
    by (simp add: twoBoxes_def box_def)
  have h2: "\<forall>e\<in>set (Contexts twoBoxes). SidekickContext.Name e \<noteq> SidekickContext.Name ?x3"
    by (simp add: twoBoxes_def)
  have h3: "\<forall>e\<in>set (Servers twoBoxes). SidekickServer.Name e \<noteq> SidekickServer.Name ?s3"
    by (simp add: twoBoxes_def box_def)
  have h4: "\<exists>e\<in>set (Contexts twoBoxes). SidekickContext.Name e = SidekickContext.Name ?x1"
    by (simp add: twoBoxes_def)
  from AddOrReplace_upsert[of twoBoxes ?s2 ?x3] h1 h2
  obtain k where k: "k < length (Servers twoBoxes)"
      "\<forall>j<k. SidekickServer.Name (Servers twoBoxes ! j) \<noteq> SidekickServer.Name ?s2"
      "SidekickServer.Name (Servers twoBoxes ! k) = SidekickServer.Name ?s2"
      "Servers (AddOrReplaceServer twoBoxes ?s2) = (Servers twoBoxes)[k := ?s2]"
    and c3: "Contexts (AddOrReplaceContext twoBoxes ?x3) = Contexts twoBoxes @ [?x3]"
    by blast
  from k(1,3) have "k = 1"
    by (cases k) (simp_all add: twoBoxes_def box_def)
  with k(4) have r1: "Servers (AddOrReplaceServer twoBoxes ?s2) = [box ''box1'' ''203.0.113.5'', ?s2]"
    by (simp add: twoBoxes_def)
  from AddOrReplace_upsert[of twoBoxes ?s3 ?x1] h3 h4
  obtain m where m: "m < length (Contexts twoBoxes)"
      "SidekickContext.Name (Contexts twoBoxes ! m) = SidekickContext.Name ?x1"
      "Contexts (AddOrReplaceContext twoBoxes ?x1) = (Contexts twoBoxes)[m := ?x1]"
    and s3: "Servers (AddOrReplaceServer twoBoxes ?s3) = Servers twoBoxes @ [?s3]"
    by blast
  from m(1,2) have "m = 0"
    by (cases m) (simp_all add: twoBoxes_def)
  with m(3) have r4: "Contexts (AddOrReplaceContext twoBoxes ?x1) =
      [?x1, \<lparr>SidekickContext.Name = ''box2'', Server = ''box2''\<rparr>]"
    by (simp add: twoBoxes_def)
  from s3 have r3: "Servers (AddOrReplaceServer twoBoxes ?s3) =
      [box ''box1'' ''203.0.113.5'', box ''box2'' ''203.0.113.6'', ?s3]"
    by (simp add: twoBoxes_def)
  from h2 have h2': "''box3'' \<notin> SidekickContext.Name ` set (Contexts twoBoxes)" by auto
  from h3 have h3': "SidekickServer.Name ?s3 \<notin> SidekickServer.Name ` set (Servers twoBoxes)" by auto
  from h1 r1 h2' c3 h3' r3 h4 r4 show ?thesis by simp
qed

section \<open>Login\<close>

text \<open>
  Claim C3. \<^verbatim>\<open>stage2Login\<close> first calls \<^verbatim>\<open>utils.Login\<close> as \<^verbatim>\<open>root\<close>. If that succeeds it
  returns that session with the name \<^verbatim>\<open>root\<close> and makes no further attempt. Otherwise it
  calls \<^verbatim>\<open>utils.Login\<close> as \<^verbatim>\<open>sidekick\<close> and returns that session with the name
  \<^verbatim>\<open>sidekick\<close> if it succeeds. It returns its error exactly when both attempts have
  failed, after both were made in that order.
\<close>

theorem stage2Login_priority:
  assumes "utils_Login env server ''root'' (world s) = (r1, w1)"
      and "utils_Login env server ''sidekick'' w1 = (r2, w2)"
  shows "(\<forall>client. r1 = Inr client \<longrightarrow>
            stage2Login env server s =
              (Inr (client, ''root''), \<lparr>world = w1, calls = calls s @ [CLogin server ''root'']\<rparr>)) \<and>
         (\<forall>e1 client. r1 = Inl e1 \<and> r2 = Inr client \<longrightarrow>
            stage2Login env server s =
              (Inr (client, ''sidekick''),
               \<lparr>world = w2, calls = calls s @ [CLogin server ''root'', CLogin server ''sidekick'']\<rparr>)) \<and>
         (\<forall>e1 e2. r1 = Inl e1 \<and> r2 = Inl e2 \<longrightarrow>
            stage2Login env server s =
              (Inl ''unable to establish SSH connection'',
               \<lparr>world = w2, calls = calls s @ [CLogin server ''root'', CLogin server ''sidekick'']\<rparr>)) \<and>
         ((\<exists>e. fst (stage2Login env server s) = Inl e) \<longleftrightarrow> (\<exists>e1 e2. r1 = Inl e1 \<and> r2 = Inl e2))"
  using assms
  by (cases r1; cases r2) (simp_all add: stage2Login_def extern_def)

theorem stage2Login_priority_witness:
  "utils_Login host ''203.0.113.5'' ''root'' (world fresh) = (Inr ''root'', []) \<and>
   stage2Login host ''203.0.113.5'' fresh =
     (Inr (''root'', ''root''), \<lparr>world = [], calls = [CLogin ''203.0.113.5'' ''root'']\<rparr>) \<and>
   utils_Login rootDisabled ''203.0.113.5'' ''root'' (world fresh) = (Inl ''ssh: unable to authenticate'', []) \<and>
   utils_Login rootDisabled ''203.0.113.5'' ''sidekick'' [] = (Inr ''sidekick'', []) \<and>
   stage2Login rootDisabled ''203.0.113.5'' fresh =
     (Inr (''sidekick'', ''sidekick''),
      \<lparr>world = [], calls = [CLogin ''203.0.113.5'' ''root'', CLogin ''203.0.113.5'' ''sidekick'']\<rparr>) \<and>
   utils_Login unreachable ''203.0.113.5'' ''root'' (world fresh) = (Inl ''dial tcp: i/o timeout'', []) \<and>
   utils_Login unreachable ''203.0.113.5'' ''sidekick'' [] = (Inl ''dial tcp: i/o timeout'', []) \<and>
   stage2Login unreachable ''203.0.113.5'' fresh =
     (Inl ''unable to establish SSH connection'',
      \<lparr>world = [], calls = [CLogin ''203.0.113.5'' ''root'', CLogin ''203.0.113.5'' ''sidekick'']\<rparr>)"
proof -
  have a1: "utils_Login host ''203.0.113.5'' ''root'' (world fresh) = (Inr ''root'', [])"
    by (simp add: host_def host_Login_def fresh_def)
  have a2: "utils_Login host ''203.0.113.5'' ''sidekick'' [] = (Inl ''ssh: unable to authenticate'', [])"
    by (simp add: host_def host_Login_def)
  have b1: "utils_Login rootDisabled ''203.0.113.5'' ''root'' (world fresh) = (Inl ''ssh: unable to authenticate'', [])"
    by (simp add: rootDisabled_def fresh_def)
  have b2: "utils_Login rootDisabled ''203.0.113.5'' ''sidekick'' [] = (Inr ''sidekick'', [])"
    by (simp add: rootDisabled_def)
  have c1: "utils_Login unreachable ''203.0.113.5'' ''root'' (world fresh) = (Inl ''dial tcp: i/o timeout'', [])"
    by (simp add: unreachable_def fresh_def)
  have c2: "utils_Login unreachable ''203.0.113.5'' ''sidekick'' [] = (Inl ''dial tcp: i/o timeout'', [])"
    by (simp add: unreachable_def)
  have cs: "calls fresh = []" by (simp add: fresh_def)
  from stage2Login_priority[OF a1 a2] cs
  have r1: "stage2Login host ''203.0.113.5'' fresh =
     (Inr (''root'', ''root''), \<lparr>world = [], calls = [CLogin ''203.0.113.5'' ''root'']\<rparr>)" by simp
  from stage2Login_priority[OF b1 b2] cs
  have r2: "stage2Login rootDisabled ''203.0.113.5'' fresh =
     (Inr (''sidekick'', ''sidekick''),
      \<lparr>world = [], calls = [CLogin ''203.0.113.5'' ''root'', CLogin ''203.0.113.5'' ''sidekick'']\<rparr>)" by simp
  from stage2Login_priority[OF c1 c2] cs
  have r3: "stage2Login unreachable ''203.0.113.5'' fresh =
     (Inl ''unable to establish SSH connection'',
      \<lparr>world = [], calls = [CLogin ''203.0.113.5'' ''root'', CLogin ''203.0.113.5'' ''sidekick'']\<rparr>)" by simp
  from a1 r1 b1 b2 r2 c1 c2 r3 show ?thesis by (intro conjI)
qed

section \<open>Idempotency probes\<close>

text \<open>
  Claim C9. When the probe command of a stage runs without error and reports that the
  effect is present (\<^verbatim>\<open>"1"\<close> for the container-runtime and the reverse-proxy probe, a
  non-empty user id for the user check), the stage returns \<^verbatim>\<open>nil\<close> and the probe is the
  only external call it makes: the world it leaves is the world after the probe, and no
  command list is run. This holds in every state, so also on a second run over a host
  whose probe then reports the effect.
\<close>

theorem probe_short_circuits:
  "(utils_RunCommand env client dockerProbe (world s) = ((Some ''1'', None), w') \<longrightarrow>
      stage5Docker env client s =
        (Returned None, \<lparr>world = w', calls = calls s @ [CRunCommand client dockerProbe]\<rparr>)) \<and>
   (utils_RunCommand env client traefikProbe (world s) = ((Some ''1'', None), w') \<longrightarrow>
      stage6Traefik env client email s =
        (Returned None, \<lparr>world = w', calls = calls s @ [CRunCommand client traefikProbe]\<rparr>)) \<and>
   (utils_RunCommand env client ''id -u sidekick'' (world s) = ((Some uid, None), w') \<and> uid \<noteq> [] \<longrightarrow>
      stage3UserSetup env client loggedInUser s =
        (Returned None, \<lparr>world = w', calls = calls s @ [CRunCommand client ''id -u sidekick'']\<rparr>))"
  by (simp add: stage5Docker_def stage6Traefik_def stage3UserSetup_def extern_def)

lemma host_docker_first_run:
  "stage5Docker host ''sidekick'' fresh =
     (Returned None,
      \<lparr>world = [''install docker''],
       calls = [CRunCommand ''sidekick'' dockerProbe, CRunCommandsWithTUIHook ''sidekick'' [''install docker'']]\<rparr>)"
  by (simp add: stage5Docker_def extern_def host_def host_RunCommand_def fresh_def dockerProbe_def distroCommand_def)

theorem probe_short_circuits_witness:
  "utils_RunCommand host ''sidekick'' dockerProbe (world (snd (stage5Docker host ''sidekick'' fresh))) =
     ((Some ''1'', None), [''install docker'']) \<and>
   stage5Docker host ''sidekick'' (snd (stage5Docker host ''sidekick'' fresh)) =
     (Returned None,
      \<lparr>world = [''install docker''],
       calls = [CRunCommand ''sidekick'' dockerProbe, CRunCommandsWithTUIHook ''sidekick'' [''install docker''],
                CRunCommand ''sidekick'' dockerProbe]\<rparr>) \<and>
   utils_RunCommand host ''sidekick'' traefikProbe (world provisioned) = ((Some ''1'', None), world provisioned) \<and>
   stage6Traefik host ''sidekick'' ''a@b.com'' provisioned =
     (Returned None, \<lparr>world = world provisioned, calls = [CRunCommand ''sidekick'' traefikProbe]\<rparr>) \<and>
   utils_RunCommand host ''root'' ''id -u sidekick'' (world provisioned) = ((Some ''1001'', None), world provisioned) \<and>
   stage3UserSetup host ''root'' ''root'' provisioned =
     (Returned None, \<lparr>world = world provisioned, calls = [CRunCommand ''root'' ''id -u sidekick'']\<rparr>)"
proof -
  let ?s1 = "snd (stage5Docker host ''sidekick'' fresh)"
  have s1: "?s1 = \<lparr>world = [''install docker''],
       calls = [CRunCommand ''sidekick'' dockerProbe, CRunCommandsWithTUIHook ''sidekick'' [''install docker'']]\<rparr>"
    by (simp add: host_docker_first_run)
  have d: "utils_RunCommand host ''sidekick'' dockerProbe (world ?s1) = ((Some ''1'', None), [''install docker''])"
    by (simp add: s1) (simp add: host_def host_RunCommand_def dockerProbe_def distroCommand_def)
  have t: "utils_RunCommand host ''sidekick'' traefikProbe (world provisioned) = ((Some ''1'', None), world provisioned)"
    by (simp add: host_def host_RunCommand_def provisioned_def traefikProbe_def dockerProbe_def distroCommand_def)
  have u: "utils_RunCommand host ''root'' ''id -u sidekick'' (world provisioned) = ((Some ''1001'', None), world provisioned)"
    by (simp add: host_def host_RunCommand_def provisioned_def distroCommand_def)
  have u': "''1001'' \<noteq> []" by simp
  have cp: "calls provisioned = []" by (simp add: provisioned_def)
  note thm1 = probe_short_circuits[of host "''sidekick''" ?s1 "[''install docker'']" "''a@b.com''" "[]" "''root''"]
  note thm2 = probe_short_circuits[of host "''sidekick''" provisioned "world provisioned" "''a@b.com''" "[]" "''root''"]
  note thm3 = probe_short_circuits[of host "''root''" provisioned "world provisioned" "''a@b.com''" "''1001''" "''root''"]
  from thm1 d have r1: "stage5Docker host ''sidekick'' ?s1 =
     (Returned None,
      \<lparr>world = [''install docker''],
       calls = [CRunCommand ''sidekick'' dockerProbe, CRunCommandsWithTUIHook ''sidekick'' [''install docker''],
                CRunCommand ''sidekick'' dockerProbe]\<rparr>)"
    by (simp add: s1)
  from thm2 t cp have r2: "stage6Traefik host ''sidekick'' ''a@b.com'' provisioned =
     (Returned None, \<lparr>world = world provisioned, calls = [CRunCommand ''sidekick'' traefikProbe]\<rparr>)"
    by simp
  from thm3 u u' cp have r3: "stage3UserSetup host ''root'' ''root'' provisioned =
     (Returned None, \<lparr>world = world provisioned, calls = [CRunCommand ''root'' ''id -u sidekick'']\<rparr>)"
    by simp
  from d r1 t r2 u r3 show ?thesis by (intro conjI)
qed

section \<open>A probe that cannot be run\<close>

text \<open>
  Claim C6 as stated fails: on a host where the container-runtime probe cannot be run
  (\<^verbatim>\<open>RunCommand\<close> returns an error), \<^verbatim>\<open>stage5Docker\<close> returns \<^verbatim>\<open>nil\<close> after running the
  stage's command list, and the worker goes on through the remaining stage to the
  completion message.
\<close>

theorem probe_failure_counterexample:
  "utils_RunCommand probesDown ''sidekick'' dockerProbe (world fresh) =
     ((None, Some ''ssh: session closed''), []) \<and>
   stage5Docker probesDown ''sidekick'' fresh =
     (Returned None,
      \<lparr>world = [''install docker''],
       calls = [CRunCommand ''sidekick'' dockerProbe,
                CRunCommandsWithTUIHook ''sidekick'' [''install docker'']]\<rparr>) \<and>
   sent (fst (worker probesDown emptyRegistry ''203.0.113.5'' ''a@b.com'' newBox fresh)) =
     [NextStageMsg, NextStageMsg, NextStageMsg, NextStageMsg, NextStageMsg,
      AllDoneMsg (''VPS Setup Done in 42s,'' @ [CHR 0x0A] @
        ''Your VPS is ready! You can now run Sidekick launch in your app folder'')]"
  by code_simp

text \<open>
  Claim C6, amended. A failure to execute the probe command produces no error of its own:
  the stage goes on as if the effect were absent. \<^verbatim>\<open>stage5Docker\<close> and \<^verbatim>\<open>stage6Traefik\<close>
  run their command list and return what running it returns; \<^verbatim>\<open>stage3UserSetup\<close> does so
  with the user-creation stage when logged in as \<^verbatim>\<open>root\<close> and otherwise returns \<^verbatim>\<open>nil\<close>
  at once.
\<close>

theorem probe_failure_runs_commands:
  "(utils_RunCommand env client dockerProbe (world s) = ((ch, Some e), w1) \<and>
    utils_RunCommandsWithTUIHook env client (Commands (utils_DockerStage env)) w1 = (r, w2) \<longrightarrow>
      stage5Docker env client s =
        (Returned r,
         \<lparr>world = w2,
          calls = calls s @ [CRunCommand client dockerProbe,
                             CRunCommandsWithTUIHook client (Commands (utils_DockerStage env))]\<rparr>)) \<and>
   (utils_RunCommand env client traefikProbe (world s) = ((ch, Some e), w1) \<and>
    utils_RunCommandsWithTUIHook env client (Commands (utils_GetTraefikStage env email)) w1 = (r, w2) \<longrightarrow>
      stage6Traefik env client email s =
        (Returned r,
         \<lparr>world = w2,
          calls = calls s @ [CRunCommand client traefikProbe,
                             CRunCommandsWithTUIHook client (Commands (utils_GetTraefikStage env email))]\<rparr>)) \<and>
   (utils_RunCommand env client ''id -u sidekick'' (world s) = ((ch, Some e), w1) \<and>
    utils_RunStage env client (utils_UsersetupStage env) w1 = (r, w2) \<longrightarrow>
      stage3UserSetup env client ''root'' s =
        (Returned r,
         \<lparr>world = w2,
          calls = calls s @ [CRunCommand client ''id -u sidekick'',
                             CRunStage client (utils_UsersetupStage env)]\<rparr>)) \<and>
   (utils_RunCommand env client ''id -u sidekick'' (world s) = ((ch, Some e), w1) \<and> loggedInUser \<noteq> ''root'' \<longrightarrow>
      stage3UserSetup env client loggedInUser s =
        (Returned None, \<lparr>world = w1, calls = calls s @ [CRunCommand client ''id -u sidekick'']\<rparr>))"
  by (cases r) (simp_all add: stage5Docker_def stage6Traefik_def stage3UserSetup_def extern_def Let_def)

theorem probe_failure_runs_commands_witness:
  "utils_RunCommand probesDown ''sidekick'' dockerProbe (world fresh) = ((None, Some ''ssh: session closed''), []) \<and>
   utils_RunCommandsWithTUIHook probesDown ''sidekick'' (Commands (utils_DockerStage probesDown)) [] =
     (None, [''install docker'']) \<and>
   stage5Docker probesDown ''sidekick'' fresh =
     (Returned None,
      \<lparr>world = [''install docker''],
       calls = calls fresh @ [CRunCommand ''sidekick'' dockerProbe,
                CRunCommandsWithTUIHook ''sidekick'' (Commands (utils_DockerStage probesDown))]\<rparr>) \<and>
   utils_RunCommand probesDown ''sidekick'' traefikProbe (world fresh) = ((None, Some ''ssh: session closed''), []) \<and>
   utils_RunCommandsWithTUIHook probesDown ''sidekick'' (Commands (utils_GetTraefikStage probesDown ''a@b.com'')) [] =
     (None, [''mkdir traefik'', ''echo a@b.com'']) \<and>
   stage6Traefik probesDown ''sidekick'' ''a@b.com'' fresh =
     (Returned None,
      \<lparr>world = [''mkdir traefik'', ''echo a@b.com''],
       calls = calls fresh @ [CRunCommand ''sidekick'' traefikProbe,
                CRunCommandsWithTUIHook ''sidekick'' (Commands (utils_GetTraefikStage probesDown ''a@b.com''))]\<rparr>) \<and>
   utils_RunCommand probesDown ''root'' ''id -u sidekick'' (world fresh) = ((None, Some ''ssh: session closed''), []) \<and>
   utils_RunStage probesDown ''root'' (utils_UsersetupStage probesDown) [] = (None, [''useradd sidekick'']) \<and>
   stage3UserSetup probesDown ''root'' ''root'' fresh =
     (Returned None,
      \<lparr>world = [''useradd sidekick''],
       calls = calls fresh @ [CRunCommand ''root'' ''id -u sidekick'',
                CRunStage ''root'' (utils_UsersetupStage probesDown)]\<rparr>) \<and>
   utils_RunCommand probesDown ''sidekick'' ''id -u sidekick'' (world fresh) = ((None, Some ''ssh: session closed''), []) \<and>
   ''sidekick'' \<noteq> ''root'' \<and>
   stage3UserSetup probesDown ''sidekick'' ''sidekick'' fresh =
     (Returned None, \<lparr>world = [], calls = calls fresh @ [CRunCommand ''sidekick'' ''id -u sidekick'']\<rparr>)"
proof -
  have d1: "utils_RunCommand probesDown ''sidekick'' dockerProbe (world fresh) = ((None, Some ''ssh: session closed''), [])"
    by code_simp
  have d2: "utils_RunCommandsWithTUIHook probesDown ''sidekick'' (Commands (utils_DockerStage probesDown)) [] =
     (None, [''install docker''])"
    by code_simp
  have t1: "utils_RunCommand probesDown ''sidekick'' traefikProbe (world fresh) = ((None, Some ''ssh: session closed''), [])"
    by code_simp
  have t2: "utils_RunCommandsWithTUIHook probesDown ''sidekick'' (Commands (utils_GetTraefikStage probesDown ''a@b.com'')) [] =
     (None, [''mkdir traefik'', ''echo a@b.com''])"
    by code_simp
  have u1: "utils_RunCommand probesDown ''root'' ''id -u sidekick'' (world fresh) = ((None, Some ''ssh: session closed''), [])"
    by code_simp
  have u2: "utils_RunStage probesDown ''root'' (utils_UsersetupStage probesDown) [] = (None, [''useradd sidekick''])"
    by code_simp
  have v1: "utils_RunCommand probesDown ''sidekick'' ''id -u sidekick'' (world fresh) = ((None, Some ''ssh: session closed''), [])"
    by code_simp
  have v2: "''sidekick'' \<noteq> ''root''" by simp
  from probe_failure_runs_commands[of probesDown "''sidekick''" fresh None "''ssh: session closed''" "[]" None
      "[''install docker'']" "''a@b.com''" "''sidekick''"] d1 d2
  have r1: "stage5Docker probesDown ''sidekick'' fresh =
     (Returned None,
      \<lparr>world = [''install docker''],
       calls = calls fresh @ [CRunCommand ''sidekick'' dockerProbe,
                CRunCommandsWithTUIHook ''sidekick'' (Commands (utils_DockerStage probesDown))]\<rparr>)"
    by blast
  from probe_failure_runs_commands[of probesDown "''sidekick''" fresh None "''ssh: session closed''" "[]" None
      "[''mkdir traefik'', ''echo a@b.com'']" "''a@b.com''" "''sidekick''"] t1 t2
  have r2: "stage6Traefik probesDown ''sidekick'' ''a@b.com'' fresh =
     (Returned None,
      \<lparr>world = [''mkdir traefik'', ''echo a@b.com''],
       calls = calls fresh @ [CRunCommand ''sidekick'' traefikProbe,
                CRunCommandsWithTUIHook ''sidekick'' (Commands (utils_GetTraefikStage probesDown ''a@b.com''))]\<rparr>)"
    by blast
  from probe_failure_runs_commands[of probesDown "''root''" fresh None "''ssh: session closed''" "[]" None
      "[''useradd sidekick'']" "''a@b.com''" "''sidekick''"] u1 u2
  have r3: "stage3UserSetup probesDown ''root'' ''root'' fresh =
     (Returned None,
      \<lparr>world = [''useradd sidekick''],
       calls = calls fresh @ [CRunCommand ''root'' ''id -u sidekick'',
                CRunStage ''root'' (utils_UsersetupStage probesDown)]\<rparr>)"
    by blast
  from probe_failure_runs_commands[of probesDown "''sidekick''" fresh None "''ssh: session closed''" "[]" None
      "[]" "''a@b.com''" "''sidekick''"] v1 v2
  have r4: "stage3UserSetup probesDown ''sidekick'' ''sidekick'' fresh =
     (Returned None, \<lparr>world = [], calls = calls fresh @ [CRunCommand ''sidekick'' ''id -u sidekick'']\<rparr>)"
    by blast
  from d1 d2 r1 t1 t2 r2 u1 u2 r3 v1 v2 r4 show ?thesis by (intro conjI)
qed

section \<open>Host setup\<close>

text \<open>
  Claim C10. \<^verbatim>\<open>stage4VPSSetup\<close> assigns \<^verbatim>\<open>PlatformId\<close> only from the output of
  \<^verbatim>\<open>uname -m\<close>: \<^verbatim>\<open>linux/amd64\<close> when it is exactly \<^verbatim>\<open>x86_64\<close>, \<^verbatim>\<open>linux/arm64\<close> when it
  is exactly \<^verbatim>\<open>aarch64\<close>. For every other output, and when no output arrives, the field
  keeps the value it had on entry. This holds however the stage ends.
\<close>

theorem stage4VPSSetup_PlatformId:
  assumes "utils_RunCommand env client distroCommand (world s) = ((out1, e1), w1)"
      and "utils_RunCommand env client ''uname -m'' w1 = ((out2, e2), w2)"
  shows "PlatformId (fst (snd (stage4VPSSetup env client server s))) =
           (if out1 \<noteq> None \<and> out2 = Some ''x86_64'' then ''linux/amd64''
            else if out1 \<noteq> None \<and> out2 = Some ''aarch64'' then ''linux/arm64''
            else PlatformId server)"
  using assms
  by (simp add: stage4VPSSetup_def extern_def Let_def split: prod.splits option.splits sum.splits)

theorem stage4VPSSetup_PlatformId_witness:
  "utils_RunCommand host ''sidekick'' distroCommand (world fresh) = ((Some ''ubuntu'', None), []) \<and>
   utils_RunCommand host ''sidekick'' ''uname -m'' [] = ((Some ''x86_64'', None), []) \<and>
   PlatformId (fst (snd (stage4VPSSetup host ''sidekick'' newBox fresh))) = ''linux/amd64'' \<and>
   utils_RunCommand armHost ''sidekick'' distroCommand (world fresh) = ((Some ''ubuntu'', None), []) \<and>
   utils_RunCommand armHost ''sidekick'' ''uname -m'' [] = ((Some ''aarch64'', None), []) \<and>
   PlatformId (fst (snd (stage4VPSSetup armHost ''sidekick'' newBox fresh))) = ''linux/arm64'' \<and>
   utils_RunCommand riscvHost ''sidekick'' distroCommand (world fresh) = ((Some ''ubuntu'', None), []) \<and>
   utils_RunCommand riscvHost ''sidekick'' ''uname -m'' [] = ((Some ''riscv64'', None), []) \<and>
   PlatformId (fst (snd (stage4VPSSetup riscvHost ''sidekick'' (box ''box1'' ''203.0.113.5'') fresh))) =
     PlatformId (box ''box1'' ''203.0.113.5'')"
proof -
  have a1: "utils_RunCommand host ''sidekick'' distroCommand (world fresh) = ((Some ''ubuntu'', None), [])"
    by code_simp
  have a2: "utils_RunCommand host ''sidekick'' ''uname -m'' [] = ((Some ''x86_64'', None), [])"
    by code_simp
  have b1: "utils_RunCommand armHost ''sidekick'' distroCommand (world fresh) = ((Some ''ubuntu'', None), [])"
    by code_simp
  have b2: "utils_RunCommand armHost ''sidekick'' ''uname -m'' [] = ((Some ''aarch64'', None), [])"
    by code_simp
  have c1: "utils_RunCommand riscvHost ''sidekick'' distroCommand (world fresh) = ((Some ''ubuntu'', None), [])"
    by code_simp
  have c2: "utils_RunCommand riscvHost ''sidekick'' ''uname -m'' [] = ((Some ''riscv64'', None), [])"
    by code_simp
  from stage4VPSSetup_PlatformId[OF a1 a2, of newBox]
  have r1: "PlatformId (fst (snd (stage4VPSSetup host ''sidekick'' newBox fresh))) = ''linux/amd64''"
    by simp
  from stage4VPSSetup_PlatformId[OF b1 b2, of newBox]
  have r2: "PlatformId (fst (snd (stage4VPSSetup armHost ''sidekick'' newBox fresh))) = ''linux/arm64''"
    by simp
  from stage4VPSSetup_PlatformId[OF c1 c2, of "box ''box1'' ''203.0.113.5''"]
  have r3: "PlatformId (fst (snd (stage4VPSSetup riscvHost ''sidekick'' (box ''box1'' ''203.0.113.5'') fresh))) =
     PlatformId (box ''box1'' ''203.0.113.5'')"
    by simp
  from a1 a2 r1 b1 b2 r2 c1 c2 r3 show ?thesis by (intro conjI)
qed

text \<open>
  Claim C5. When both key fields of the host identity are non-empty on entry,
  \<^verbatim>\<open>stage4VPSSetup\<close> leaves both as they were, however it ends, and \<^verbatim>\<open>age-keygen\<close> is not
  among the calls it makes.
\<close>

theorem stage4VPSSetup_keeps_keypair:
  assumes "PublicKey server \<noteq> []" and "SecretKey server \<noteq> []"
  shows "PublicKey (fst (snd (stage4VPSSetup env client server s))) = PublicKey server \<and>
         SecretKey (fst (snd (stage4VPSSetup env client server s))) = SecretKey server \<and>
         CExecOutput ''age-keygen'' \<notin>
           set (drop (length (calls s)) (calls (snd (snd (stage4VPSSetup env client server s)))))"
  using assms
  by (simp add: stage4VPSSetup_def extern_def Let_def split: prod.splits option.splits sum.splits)

theorem stage4VPSSetup_keeps_keypair_witness:
  "PublicKey (box ''box1'' ''203.0.113.5'') \<noteq> [] \<and>
   SecretKey (box ''box1'' ''203.0.113.5'') \<noteq> [] \<and>
   fst (stage4VPSSetup host ''sidekick'' (box ''box1'' ''203.0.113.5'') provisioned) = Returned None \<and>
   PublicKey (fst (snd (stage4VPSSetup host ''sidekick'' (box ''box1'' ''203.0.113.5'') provisioned))) = ''age1old'' \<and>
   SecretKey (fst (snd (stage4VPSSetup host ''sidekick'' (box ''box1'' ''203.0.113.5'') provisioned))) =
     ''AGE-SECRET-KEY-1OLD'' \<and>
   CExecOutput ''age-keygen'' \<notin>
     set (drop (length (calls provisioned))
            (calls (snd (snd (stage4VPSSetup host ''sidekick'' (box ''box1'' ''203.0.113.5'') provisioned)))))"
proof -
  have h1: "PublicKey (box ''box1'' ''203.0.113.5'') \<noteq> []" by (simp add: box_def)
  have h2: "SecretKey (box ''box1'' ''203.0.113.5'') \<noteq> []" by (simp add: box_def)
  have ret: "fst (stage4VPSSetup host ''sidekick'' (box ''box1'' ''203.0.113.5'') provisioned) = Returned None"
    by code_simp
  have k1: "PublicKey (box ''box1'' ''203.0.113.5'') = ''age1old''" by (simp add: box_def)
  have k2: "SecretKey (box ''box1'' ''203.0.113.5'') = ''AGE-SECRET-KEY-1OLD''" by (simp add: box_def)
  from stage4VPSSetup_keeps_keypair[OF h1 h2, of host "''sidekick''" provisioned] h1 h2 ret k1 k2
  show ?thesis by simp
qed

section \<open>The config subcommands\<close>

lemma migrateCmd_no_write:
  "CWriteFile p d \<notin> set (drop (length (calls s)) (calls (snd (migrateCmd env s))))"
  by (simp add: migrateCmd_def Print_def extern_def pterm_Fatal_Println_def
           split: prod.splits sum.splits option.splits)

lemma initConfig_calls:
  "calls (snd (initConfig env c s)) = calls s @ [CReadFile (viper_GetString_config env)] \<or>
   (\<exists>m. calls (snd (initConfig env c s)) = calls s @ [CReadFile (viper_GetString_config env), CFatal m])"
  by (auto simp: initConfig_def extern_def pterm_Fatal_Println_def Let_def
           split: prod.splits sum.splits option.splits proc.splits)

lemma Execute_migrate_no_write:
  "CWriteFile p d \<notin> set (drop (length (calls s)) (calls (snd (Execute env ConfigMigrate s))))"
proof -
  obtain r1 s1 where i: "initConfig env \<lparr>cmd_Name = ''migrate'', cmd_Parent = Some ''config''\<rparr> s = (r1, s1)"
    by (cases "initConfig env \<lparr>cmd_Name = ''migrate'', cmd_Parent = Some ''config''\<rparr> s")
  from initConfig_calls[of env "\<lparr>cmd_Name = ''migrate'', cmd_Parent = Some ''config''\<rparr>" s] i
  obtain cs where cs: "calls s1 = calls s @ cs" "CWriteFile p d \<notin> set cs"
    by auto
  obtain r2 s2 where m: "migrateCmd env s1 = (r2, s2)" by (cases "migrateCmd env s1")
  from migrateCmd_no_write[of p d s1 env] m
  have w2: "CWriteFile p d \<notin> set (drop (length (calls s1)) (calls s2))" by simp
  have pre: "\<exists>ds. calls s2 = calls s1 @ ds"
    using m by (auto simp: migrateCmd_def Print_def extern_def pterm_Fatal_Println_def
                   split: prod.splits sum.splits option.splits)
  then obtain ds where ds: "calls s2 = calls s1 @ ds" by blast
  with w2 have "CWriteFile p d \<notin> set ds" by simp
  with cs ds have "CWriteFile p d \<notin> set (drop (length (calls s)) (calls s2))" by simp
  with cs i m show ?thesis
    by (cases r1; cases r2) (simp_all add: Execute_def)
qed

text \<open>
  Claim C4. When the legacy document can be read and decoded as one host identity,
  \<^verbatim>\<open>migrateCmd\<close> builds a registry of version \<^verbatim>\<open>"1"\<close> with exactly that host, renamed
  \<^verbatim>\<open>default\<close>, exactly one context \<^verbatim>\<open>default\<close> pointing to it, and \<^verbatim>\<open>default\<close> as current
  context; its only calls are the read of the document and the write of the serialised
  registry to standard output. No file is written on any path, neither by \<^verbatim>\<open>migrateCmd\<close>
  nor by the whole invocation \<^verbatim>\<open>config migrate\<close>.
\<close>

theorem migrateCmd_converts:
  "(\<forall>p d. CWriteFile p d \<notin> set (drop (length (calls s)) (calls (snd (migrateCmd env s))))) \<and>
   (\<forall>p d. CWriteFile p d \<notin> set (drop (length (calls s)) (calls (snd (Execute env ConfigMigrate s))))) \<and>
   (os_ReadFile env (viper_GetString_config env) (world s) = (Inr content, w1) \<and>
    yaml_Unmarshal_Server env content = (legacy, None) \<longrightarrow>
      Version (migrate_newConfig legacy) = ''1'' \<and>
      Servers (migrate_newConfig legacy) = [legacy\<lparr>SidekickServer.Name := ''default''\<rparr>] \<and>
      length (Servers (migrate_newConfig legacy)) = 1 \<and>
      SidekickServer.Name (hd (Servers (migrate_newConfig legacy))) = ''default'' \<and>
      Contexts (migrate_newConfig legacy) = [\<lparr>SidekickContext.Name = ''default'', Server = ''default''\<rparr>] \<and>
      CurrentContext (migrate_newConfig legacy) = ''default'' \<and>
      (\<forall>data w2. yaml_Marshal env (migrate_newConfig legacy) = Inr data \<and>
                 os_Stdout_Write env data w1 = (None, w2) \<longrightarrow>
         migrateCmd env s =
           (Return (),
            \<lparr>world = w2,
             calls = calls s @ [CReadFile (viper_GetString_config env), CStdoutWrite data]\<rparr>)))"
proof -
  have "migrateCmd env s =
           (Return (),
            \<lparr>world = w2,
             calls = calls s @ [CReadFile (viper_GetString_config env), CStdoutWrite data]\<rparr>)"
    if "os_ReadFile env (viper_GetString_config env) (world s) = (Inr content, w1)"
      and "yaml_Unmarshal_Server env content = (legacy, None)"
      and "yaml_Marshal env (migrate_newConfig legacy) = Inr data"
      and "os_Stdout_Write env data w1 = (None, w2)" for data w2
    using that by (simp add: migrateCmd_def Print_def extern_def)
  moreover have "Version (migrate_newConfig legacy) = ''1'' \<and>
      Servers (migrate_newConfig legacy) = [legacy\<lparr>SidekickServer.Name := ''default''\<rparr>] \<and>
      length (Servers (migrate_newConfig legacy)) = 1 \<and>
      SidekickServer.Name (hd (Servers (migrate_newConfig legacy))) = ''default'' \<and>
      Contexts (migrate_newConfig legacy) = [\<lparr>SidekickContext.Name = ''default'', Server = ''default''\<rparr>] \<and>
      CurrentContext (migrate_newConfig legacy) = ''default''"
    by (simp add: migrate_newConfig_def Let_def)
  ultimately show ?thesis
    using migrateCmd_no_write[of _ _ s env] Execute_migrate_no_write[of _ _ s env] by blast
qed

theorem migrateCmd_converts_witness:
  "os_ReadFile legacyFile (viper_GetString_config legacyFile) (world fresh) = (Inr ''203.0.113.5'', []) \<and>
   yaml_Unmarshal_Server legacyFile ''203.0.113.5'' =
     (\<lparr>SidekickServer.Name = [], Address = ''203.0.113.5'', CertEmail = [], Distro = [], PlatformId = [],
       PublicKey = [], SecretKey = []\<rparr>, None) \<and>
   yaml_Marshal legacyFile
     (migrate_newConfig \<lparr>SidekickServer.Name = [], Address = ''203.0.113.5'', CertEmail = [], Distro = [],
        PlatformId = [], PublicKey = [], SecretKey = []\<rparr>) =
     Inr ''version: 1 currentContext: default servers: default contexts: default'' \<and>
   os_Stdout_Write legacyFile ''version: 1 currentContext: default servers: default contexts: default'' [] =
     (None, []) \<and>
   migrateCmd legacyFile fresh =
     (Return (),
      \<lparr>world = [],
       calls = calls fresh @
         [CReadFile (viper_GetString_config legacyFile),
          CStdoutWrite ''version: 1 currentContext: default servers: default contexts: default'']\<rparr>) \<and>
   Servers (migrate_newConfig \<lparr>SidekickServer.Name = [], Address = ''203.0.113.5'', CertEmail = [], Distro = [],
        PlatformId = [], PublicKey = [], SecretKey = []\<rparr>) =
     [\<lparr>SidekickServer.Name = ''default'', Address = ''203.0.113.5'', CertEmail = [], Distro = [],
        PlatformId = [], PublicKey = [], SecretKey = []\<rparr>] \<and>
   Execute legacyFile ConfigMigrate fresh =
     (0, \<lparr>world = [],
          calls = [CReadFile (viper_GetString_config legacyFile), CReadFile (viper_GetString_config legacyFile),
                   CStdoutWrite ''version: 1 currentContext: default servers: default contexts: default'']\<rparr>)"
proof -
  let ?legacy = "\<lparr>SidekickServer.Name = [], Address = ''203.0.113.5'', CertEmail = [], Distro = [],
        PlatformId = [], PublicKey = [], SecretKey = []\<rparr>"
  let ?data = "''version: 1 currentContext: default servers: default contexts: default''"
  have h1: "os_ReadFile legacyFile (viper_GetString_config legacyFile) (world fresh) = (Inr ''203.0.113.5'', [])"
    by code_simp
  have h2: "yaml_Unmarshal_Server legacyFile ''203.0.113.5'' = (?legacy, None)"
    by code_simp
  have h3: "yaml_Marshal legacyFile (migrate_newConfig ?legacy) = Inr ?data"
    by code_simp
  have h4: "os_Stdout_Write legacyFile ?data [] = (None, [])"
    by code_simp
  from migrateCmd_converts[of fresh legacyFile "''203.0.113.5''" "[]" ?legacy] h1 h2
  have c: "Servers (migrate_newConfig ?legacy) = [?legacy\<lparr>SidekickServer.Name := ''default''\<rparr>]"
    and r: "\<forall>data w2. yaml_Marshal legacyFile (migrate_newConfig ?legacy) = Inr data \<and>
                 os_Stdout_Write legacyFile data [] = (None, w2) \<longrightarrow>
         migrateCmd legacyFile fresh =
           (Return (),
            \<lparr>world = w2,
             calls = calls fresh @ [CReadFile (viper_GetString_config legacyFile), CStdoutWrite data]\<rparr>)"
    by blast+
  from r h3 h4 have r': "migrateCmd legacyFile fresh =
           (Return (),
            \<lparr>world = [],
             calls = calls fresh @ [CReadFile (viper_GetString_config legacyFile), CStdoutWrite ?data]\<rparr>)"
    by blast
  from c have c': "Servers (migrate_newConfig ?legacy) =
     [\<lparr>SidekickServer.Name = ''default'', Address = ''203.0.113.5'', CertEmail = [], Distro = [],
        PlatformId = [], PublicKey = [], SecretKey = []\<rparr>]" by simp
  have e: "Execute legacyFile ConfigMigrate fresh =
     (0, \<lparr>world = [],
          calls = [CReadFile (viper_GetString_config legacyFile), CReadFile (viper_GetString_config legacyFile),
                   CStdoutWrite ?data]\<rparr>)"
    by code_simp
  from h1 h2 h3 h4 r' c' e show ?thesis by (intro conjI)
qed

text \<open>
  Claim C8 fails on the code. \<^verbatim>\<open>useContextCmd\<close> drops the error \<^verbatim>\<open>Save\<close> returns: with a
  registry file that can be read but not written, \<^verbatim>\<open>config use box2\<close> attempts the write,
  the write fails, and the process still ends with status 0.
\<close>

theorem config_use_unwritable_exits_zero:
  "os_WriteFile readOnlyRegistry (viper_GetString_config readOnlyRegistry)
      ''version: 1 currentContext: box2 servers: contexts:'' [] = (Some ''open: permission denied'', []) \<and>
   Execute readOnlyRegistry (ConfigUse [''box2'']) fresh =
     (0, \<lparr>world = [],
          calls = [CReadFile (viper_GetString_config readOnlyRegistry),
                   CWriteFile (viper_GetString_config readOnlyRegistry)
                     ''version: 1 currentContext: box2 servers: contexts:'']\<rparr>)"
  by code_simp

section \<open>The progress stream of the worker\<close>

lemma worker_sent_cases:
  "(\<exists>m. sent (fst (worker env config server certEmail sidekickServer s)) =
          [NextStageMsg, NextStageMsg, NextStageMsg, NextStageMsg, NextStageMsg, AllDoneMsg m] \<and>
        returned (fst (worker env config server certEmail sidekickServer s))) \<or>
   (\<exists>m. sent (fst (worker env config server certEmail sidekickServer s)) \<in>
          {[ErrorMsg m], [NextStageMsg, ErrorMsg m], [NextStageMsg, NextStageMsg, ErrorMsg m],
           [NextStageMsg, NextStageMsg, NextStageMsg, ErrorMsg m],
           [NextStageMsg, NextStageMsg, NextStageMsg, NextStageMsg, ErrorMsg m],
           [NextStageMsg, NextStageMsg, NextStageMsg, NextStageMsg, NextStageMsg, ErrorMsg m]} \<and>
        returned (fst (worker env config server certEmail sidekickServer s))) \<or>
   (sent (fst (worker env config server certEmail sidekickServer s)) \<in>
          {[NextStageMsg, NextStageMsg], [NextStageMsg, NextStageMsg, NextStageMsg],
           [NextStageMsg, NextStageMsg, NextStageMsg, NextStageMsg],
           [NextStageMsg, NextStageMsg, NextStageMsg, NextStageMsg, NextStageMsg]} \<and>
        \<not> returned (fst (worker env config server certEmail sidekickServer s)))"
  by (simp add: worker_def Let_def split: prod.splits sum.splits option.splits completion.splits)

lemma error_stream_shape:
  assumes "xs \<in> {[ErrorMsg m], [NextStageMsg, ErrorMsg m], [NextStageMsg, NextStageMsg, ErrorMsg m],
           [NextStageMsg, NextStageMsg, NextStageMsg, ErrorMsg m],
           [NextStageMsg, NextStageMsg, NextStageMsg, NextStageMsg, ErrorMsg m],
           [NextStageMsg, NextStageMsg, NextStageMsg, NextStageMsg, NextStageMsg, ErrorMsg m]}"
  shows "\<exists>k\<le>5. xs = replicate k NextStageMsg @ [ErrorMsg m]"
proof -
  from assms consider "xs = replicate 0 NextStageMsg @ [ErrorMsg m]"
    | "xs = replicate 1 NextStageMsg @ [ErrorMsg m]"
    | "xs = replicate 2 NextStageMsg @ [ErrorMsg m]"
    | "xs = replicate 3 NextStageMsg @ [ErrorMsg m]"
    | "xs = replicate 4 NextStageMsg @ [ErrorMsg m]"
    | "xs = replicate 5 NextStageMsg @ [ErrorMsg m]"
    by (auto simp: numeral_eq_Suc)
  then show ?thesis
  proof cases
    case 1 then show ?thesis by (intro exI[of _ 0]) simp
  next
    case 2 then show ?thesis by (intro exI[of _ 1]) simp
  next
    case 3 then show ?thesis by (intro exI[of _ 2]) simp
  next
    case 4 then show ?thesis by (intro exI[of _ 3]) simp
  next
    case 5 then show ?thesis by (intro exI[of _ 4]) simp
  next
    case 6 then show ?thesis by (intro exI[of _ 5]) simp
  qed
qed

lemma blocked_stream_shape:
  assumes "xs \<in> {[NextStageMsg, NextStageMsg], [NextStageMsg, NextStageMsg, NextStageMsg],
           [NextStageMsg, NextStageMsg, NextStageMsg, NextStageMsg],
           [NextStageMsg, NextStageMsg, NextStageMsg, NextStageMsg, NextStageMsg]}"
  shows "\<exists>k. 2 \<le> k \<and> k \<le> 5 \<and> xs = replicate k NextStageMsg"
proof -
  from assms consider "xs = replicate 2 NextStageMsg"
    | "xs = replicate 3 NextStageMsg"
    | "xs = replicate 4 NextStageMsg"
    | "xs = replicate 5 NextStageMsg"
    by (auto simp: numeral_eq_Suc)
  then show ?thesis
  proof cases
    case 1 then show ?thesis by (intro exI[of _ 2]) simp
  next
    case 2 then show ?thesis by (intro exI[of _ 3]) simp
  next
    case 3 then show ?thesis by (intro exI[of _ 4]) simp
  next
    case 4 then show ?thesis by (intro exI[of _ 5]) simp
  qed
qed

lemma worker_stream_shapes:
  "(\<exists>m. returned (fst (worker env config server certEmail sidekickServer s)) \<and>
        sent (fst (worker env config server certEmail sidekickServer s)) =
          replicate 5 NextStageMsg @ [AllDoneMsg m]) \<or>
   (\<exists>k m. returned (fst (worker env config server certEmail sidekickServer s)) \<and> k \<le> 5 \<and>
        sent (fst (worker env config server certEmail sidekickServer s)) =
          replicate k NextStageMsg @ [ErrorMsg m]) \<or>
   (\<exists>k. \<not> returned (fst (worker env config server certEmail sidekickServer s)) \<and> 2 \<le> k \<and> k \<le> 5 \<and>
        sent (fst (worker env config server certEmail sidekickServer s)) = replicate k NextStageMsg)"
proof -
  let ?r = "fst (worker env config server certEmail sidekickServer s)"
  from worker_sent_cases[of env config server certEmail sidekickServer s]
  consider (finished) m where "returned ?r"
      "sent ?r = [NextStageMsg, NextStageMsg, NextStageMsg, NextStageMsg, NextStageMsg, AllDoneMsg m]"
    | (failed) m where "returned ?r"
      "sent ?r \<in> {[ErrorMsg m], [NextStageMsg, ErrorMsg m], [NextStageMsg, NextStageMsg, ErrorMsg m],
           [NextStageMsg, NextStageMsg, NextStageMsg, ErrorMsg m],
           [NextStageMsg, NextStageMsg, NextStageMsg, NextStageMsg, ErrorMsg m],
           [NextStageMsg, NextStageMsg, NextStageMsg, NextStageMsg, NextStageMsg, ErrorMsg m]}"
    | (blocked) "\<not> returned ?r"
      "sent ?r \<in> {[NextStageMsg, NextStageMsg], [NextStageMsg, NextStageMsg, NextStageMsg],
           [NextStageMsg, NextStageMsg, NextStageMsg, NextStageMsg],
           [NextStageMsg, NextStageMsg, NextStageMsg, NextStageMsg, NextStageMsg]}"
    by blast
  then show ?thesis
  proof cases
    case finished
    then have "sent ?r = replicate 5 NextStageMsg @ [AllDoneMsg m]"
      by (simp add: numeral_eq_Suc)
    with finished(1) show ?thesis by blast
  next
    case failed
    from error_stream_shape[OF failed(2)] failed(1) show ?thesis by blast
  next
    case blocked
    from blocked_stream_shape[OF blocked(2)] blocked(1) show ?thesis by blast
  qed
qed

text \<open>
  Claim C1 as stated fails: the worker sends no \<^verbatim>\<open>NextStageMsg\<close> after the sixth stage.
  On the simulated host, where every stage succeeds, the stream holds five of them before
  the completion message, not six.
\<close>

theorem six_advances_counterexample:
  "returned (fst (worker host emptyRegistry ''203.0.113.5'' ''a@b.com'' newBox fresh)) \<and>
   sent (fst (worker host emptyRegistry ''203.0.113.5'' ''a@b.com'' newBox fresh)) =
     [NextStageMsg, NextStageMsg, NextStageMsg, NextStageMsg, NextStageMsg,
      AllDoneMsg (''VPS Setup Done in 42s,'' @ [CHR 0x0A] @
        ''Your VPS is ready! You can now run Sidekick launch in your app folder'')] \<and>
   count_list (sent (fst (worker host emptyRegistry ''203.0.113.5'' ''a@b.com'' newBox fresh))) NextStageMsg = 5"
  by code_simp

text \<open>
  Claim C1, amended. The stream is fixed by the outcome of the steps of the run, taken in
  order: the six stages, with the login as \<^verbatim>\<open>sidekick\<close> after the third and the save of the
  registry after the sixth. When all of them succeed, the stream is exactly five
  \<^verbatim>\<open>NextStageMsg\<close>, the \<open>k\<close>-th sent once stage \<open>k\<close> has returned without error (the third
  also after the login as \<^verbatim>\<open>sidekick\<close>) and none after the sixth stage, followed by exactly
  one \<^verbatim>\<open>AllDoneMsg\<close>. When stage \<open>k + 1\<close> is the first to fail, the stream is exactly \<open>k\<close>
  \<^verbatim>\<open>NextStageMsg\<close> followed by exactly one \<^verbatim>\<open>ErrorMsg\<close> naming that stage, and the worker
  makes no call after the failing one; a failed login as \<^verbatim>\<open>sidekick\<close> ends the stream after
  two \<^verbatim>\<open>NextStageMsg\<close>, a failed save after five. A stage that stays blocked in a receive
  leaves the \<^verbatim>\<open>NextStageMsg\<close> of the stages before it and nothing else. Hence every stream
  of a worker that has returned is at most five \<^verbatim>\<open>NextStageMsg\<close> followed by exactly one
  terminal message, with five of them before an \<^verbatim>\<open>AllDoneMsg\<close>.
\<close>

theorem worker_stream_by_outcome:
  "((\<forall>err s1. stage1LocalReqs env s = (Some err, s1) \<longrightarrow>
      worker env config server certEmail sidekickServer s =
        (\<lparr>sent = replicate 0 NextStageMsg @ [ErrorMsg (''Local requirements check failed: '' @ err)],
          returned = True, registry = config, identity = sidekickServer\<rparr>, s1)) \<and>
   (\<forall>s1. stage1LocalReqs env s = (None, s1) \<longrightarrow>
     (\<forall>err s2. stage2Login env server s1 = (Inl err, s2) \<longrightarrow>
        worker env config server certEmail sidekickServer s =
          (\<lparr>sent = replicate 1 NextStageMsg @ [ErrorMsg (''Login failed: '' @ err)],
            returned = True, registry = config, identity = sidekickServer\<rparr>, s2)) \<and>
     (\<forall>sshClient loggedInUser s2. stage2Login env server s1 = (Inr (sshClient, loggedInUser), s2) \<longrightarrow>
       (\<forall>s3. stage3UserSetup env sshClient loggedInUser s2 = (Blocked, s3) \<longrightarrow>
          worker env config server certEmail sidekickServer s =
            (\<lparr>sent = replicate 2 NextStageMsg, returned = False, registry = config,
              identity = sidekickServer\<rparr>, s3)) \<and>
       (\<forall>err s3. stage3UserSetup env sshClient loggedInUser s2 = (Returned (Some err), s3) \<longrightarrow>
          worker env config server certEmail sidekickServer s =
            (\<lparr>sent = replicate 2 NextStageMsg @ [ErrorMsg (''User setup failed: '' @ err)],
              returned = True, registry = config, identity = sidekickServer\<rparr>, s3)) \<and>
       (\<forall>s3. stage3UserSetup env sshClient loggedInUser s2 = (Returned None, s3) \<longrightarrow>
         (\<forall>err s4. extern (CLogin server ''sidekick'') (utils_Login env server ''sidekick'') s3 = (Inl err, s4) \<longrightarrow>
            worker env config server certEmail sidekickServer s =
              (\<lparr>sent = replicate 2 NextStageMsg @ [ErrorMsg (''Failed to login as sidekick: '' @ err)],
                returned = True, registry = config, identity = sidekickServer\<rparr>, s4)) \<and>
         (\<forall>sidekickClient s4.
            extern (CLogin server ''sidekick'') (utils_Login env server ''sidekick'') s3 = (Inr sidekickClient, s4) \<longrightarrow>
           (\<forall>server4 s5. stage4VPSSetup env sidekickClient sidekickServer s4 = (Blocked, server4, s5) \<longrightarrow>
              worker env config server certEmail sidekickServer s =
                (\<lparr>sent = replicate 3 NextStageMsg, returned = False, registry = config,
                  identity = server4\<rparr>, s5)) \<and>
           (\<forall>err server4 s5.
              stage4VPSSetup env sidekickClient sidekickServer s4 = (Returned (Some err), server4, s5) \<longrightarrow>
              worker env config server certEmail sidekickServer s =
                (\<lparr>sent = replicate 3 NextStageMsg @ [ErrorMsg (''VPS setup failed: '' @ err)],
                  returned = True, registry = config, identity = server4\<rparr>, s5)) \<and>
           (\<forall>server4 s5. stage4VPSSetup env sidekickClient sidekickServer s4 = (Returned None, server4, s5) \<longrightarrow>
             (\<forall>s6. stage5Docker env sidekickClient s5 = (Blocked, s6) \<longrightarrow>
                worker env config server certEmail sidekickServer s =
                  (\<lparr>sent = replicate 4 NextStageMsg, returned = False, registry = config,
                    identity = server4\<rparr>, s6)) \<and>
             (\<forall>err s6. stage5Docker env sidekickClient s5 = (Returned (Some err), s6) \<longrightarrow>
                worker env config server certEmail sidekickServer s =
                  (\<lparr>sent = replicate 4 NextStageMsg @ [ErrorMsg (''Docker setup failed: '' @ err)],
                    returned = True, registry = config, identity = server4\<rparr>, s6)) \<and>
             (\<forall>s6. stage5Docker env sidekickClient s5 = (Returned None, s6) \<longrightarrow>
               (\<forall>s7. stage6Traefik env sidekickClient certEmail s6 = (Blocked, s7) \<longrightarrow>
                  worker env config server certEmail sidekickServer s =
                    (\<lparr>sent = replicate 5 NextStageMsg, returned = False, registry = config,
                      identity = server4\<rparr>, s7)) \<and>
               (\<forall>err s7. stage6Traefik env sidekickClient certEmail s6 = (Returned (Some err), s7) \<longrightarrow>
                  worker env config server certEmail sidekickServer s =
                    (\<lparr>sent = replicate 5 NextStageMsg @ [ErrorMsg (''Traefik setup failed: '' @ err)],
                      returned = True, registry = config, identity = server4\<rparr>, s7)) \<and>
               (\<forall>s7 saved. stage6Traefik env sidekickClient certEmail s6 = (Returned None, s7) \<and>
                    saved = (AddOrReplaceContext (AddOrReplaceServer config server4)
                               \<lparr>SidekickContext.Name = SidekickServer.Name server4,
                                Server = SidekickServer.Name server4\<rparr>)
                              \<lparr>CurrentContext := SidekickServer.Name server4\<rparr> \<longrightarrow>
                 (\<forall>err s8. Save env saved (viper_GetString_config env) s7 = (Some err, s8) \<longrightarrow>
                    worker env config server certEmail sidekickServer s =
                      (\<lparr>sent = replicate 5 NextStageMsg @ [ErrorMsg (''Failed to write config: '' @ err)],
                        returned = True, registry = saved, identity = server4\<rparr>, s8)) \<and>
                 (\<forall>s8. Save env saved (viper_GetString_config env) s7 = (None, s8) \<longrightarrow>
                    worker env config server certEmail sidekickServer s =
                      (\<lparr>sent = replicate 5 NextStageMsg @
                          [AllDoneMsg (''VPS Setup Done in '' @ time_Since_start env (world s8) @ '','' @
                             [CHR 0x0A] @
                             ''Your VPS is ready! You can now run Sidekick launch in your app folder'')],
                        returned = True, registry = saved, identity = server4\<rparr>, s8)))))))))) \<and>
   ((\<exists>m. returned (fst (worker env config server certEmail sidekickServer s)) \<and>
        sent (fst (worker env config server certEmail sidekickServer s)) =
          replicate 5 NextStageMsg @ [AllDoneMsg m]) \<or>
   (\<exists>k m. returned (fst (worker env config server certEmail sidekickServer s)) \<and> k \<le> 5 \<and>
        sent (fst (worker env config server certEmail sidekickServer s)) =
          replicate k NextStageMsg @ [ErrorMsg m]) \<or>
   (\<exists>k. \<not> returned (fst (worker env config server certEmail sidekickServer s)) \<and> 2 \<le> k \<and> k \<le> 5 \<and>
        sent (fst (worker env config server certEmail sidekickServer s)) = replicate k NextStageMsg))"
  (is "?outcome \<and> ?shapes")
proof (rule conjI)
  show ?outcome
    by (simp add: worker_def Let_def numeral_eq_Suc)
  show ?shapes
    by (rule worker_stream_shapes)
qed

theorem worker_stream_by_outcome_witness:
  "(let s1 = snd (stage1LocalReqs host fresh);
        s2 = snd (stage2Login host ''203.0.113.5'' s1);
        s3 = snd (stage3UserSetup host ''root'' ''root'' s2);
        s4 = snd (extern (CLogin ''203.0.113.5'' ''sidekick'') (utils_Login host ''203.0.113.5'' ''sidekick'') s3);
        s5 = snd (snd (stage4VPSSetup host ''sidekick'' newBox s4));
        s6 = snd (stage5Docker host ''sidekick'' s5);
        s7 = snd (stage6Traefik host ''sidekick'' ''a@b.com'' s6);
        saved = (AddOrReplaceContext (AddOrReplaceServer emptyRegistry scenarioBox)
                   \<lparr>SidekickContext.Name = SidekickServer.Name scenarioBox,
                    Server = SidekickServer.Name scenarioBox\<rparr>)
                  \<lparr>CurrentContext := SidekickServer.Name scenarioBox\<rparr>;
        s8 = snd (Save host saved (viper_GetString_config host) s7)
    in stage1LocalReqs host fresh = (None, s1) \<and>
       stage2Login host ''203.0.113.5'' s1 = (Inr (''root'', ''root''), s2) \<and>
       stage3UserSetup host ''root'' ''root'' s2 = (Returned None, s3) \<and>
       extern (CLogin ''203.0.113.5'' ''sidekick'') (utils_Login host ''203.0.113.5'' ''sidekick'') s3 =
         (Inr ''sidekick'', s4) \<and>
       stage4VPSSetup host ''sidekick'' newBox s4 = (Returned None, scenarioBox, s5) \<and>
       stage5Docker host ''sidekick'' s5 = (Returned None, s6) \<and>
       stage6Traefik host ''sidekick'' ''a@b.com'' s6 = (Returned None, s7) \<and>
       Save host saved (viper_GetString_config host) s7 = (None, s8) \<and>
       worker host emptyRegistry ''203.0.113.5'' ''a@b.com'' newBox fresh = (scenarioResult, s8)) \<and>
   stage2Login unreachable ''203.0.113.5'' (snd (stage1LocalReqs unreachable fresh)) =
     (Inl ''unable to establish SSH connection'',
      \<lparr>world = [],
       calls = [CLookPath ''sops'', CLookPath ''age'', CLogin ''203.0.113.5'' ''root'',
                CLogin ''203.0.113.5'' ''sidekick'']\<rparr>) \<and>
   worker unreachable emptyRegistry ''203.0.113.5'' ''a@b.com'' newBox fresh =
     (\<lparr>sent = [NextStageMsg, ErrorMsg ''Login failed: unable to establish SSH connection''],
       returned = True, registry = emptyRegistry, identity = newBox\<rparr>,
      \<lparr>world = [],
       calls = [CLookPath ''sops'', CLookPath ''age'', CLogin ''203.0.113.5'' ''root'',
                CLogin ''203.0.113.5'' ''sidekick'']\<rparr>) \<and>
   fst (worker dockerInstallFails emptyRegistry ''203.0.113.5'' ''a@b.com'' newBox fresh) =
     \<lparr>sent = [NextStageMsg, NextStageMsg, NextStageMsg, NextStageMsg,
              ErrorMsg ''Docker setup failed: Process exited with status 100''],
      returned = True, registry = emptyRegistry, identity = scenarioBox\<rparr> \<and>
   last (calls (snd (worker dockerInstallFails emptyRegistry ''203.0.113.5'' ''a@b.com'' newBox fresh))) =
     CRunCommandsWithTUIHook ''sidekick'' [''install docker''] \<and>
   fst (worker silentTraefikProbe emptyRegistry ''203.0.113.5'' ''a@b.com'' newBox fresh) =
     \<lparr>sent = [NextStageMsg, NextStageMsg, NextStageMsg, NextStageMsg, NextStageMsg],
      returned = False, registry = emptyRegistry, identity = scenarioBox\<rparr> \<and>
   last (calls (snd (worker silentTraefikProbe emptyRegistry ''203.0.113.5'' ''a@b.com'' newBox fresh))) = CRunCommand ''sidekick'' traefikProbe \<and>
   fst (worker readOnlyRegistry emptyRegistry ''203.0.113.5'' ''a@b.com'' newBox fresh) =
     \<lparr>sent = [NextStageMsg, NextStageMsg, NextStageMsg, NextStageMsg, NextStageMsg,
              ErrorMsg ''Failed to write config: open: permission denied''],
      returned = True, registry = registry scenarioResult, identity = scenarioBox\<rparr> \<and>
   last (calls (snd (worker readOnlyRegistry emptyRegistry ''203.0.113.5'' ''a@b.com'' newBox fresh))) =
     CWriteFile ''/home/u/.config/sidekick/default.yaml''
       ''version: 1 currentContext: box1 servers: box1 contexts: box1''"
proof -
  have a: "(let s1 = snd (stage1LocalReqs host fresh);
        s2 = snd (stage2Login host ''203.0.113.5'' s1);
        s3 = snd (stage3UserSetup host ''root'' ''root'' s2);
        s4 = snd (extern (CLogin ''203.0.113.5'' ''sidekick'') (utils_Login host ''203.0.113.5'' ''sidekick'') s3);
        s5 = snd (snd (stage4VPSSetup host ''sidekick'' newBox s4));
        s6 = snd (stage5Docker host ''sidekick'' s5);
        s7 = snd (stage6Traefik host ''sidekick'' ''a@b.com'' s6);
        saved = (AddOrReplaceContext (AddOrReplaceServer emptyRegistry scenarioBox)
                   \<lparr>SidekickContext.Name = SidekickServer.Name scenarioBox,
                    Server = SidekickServer.Name scenarioBox\<rparr>)
                  \<lparr>CurrentContext := SidekickServer.Name scenarioBox\<rparr>;
        s8 = snd (Save host saved (viper_GetString_config host) s7)
    in stage1LocalReqs host fresh = (None, s1) \<and>
       stage2Login host ''203.0.113.5'' s1 = (Inr (''root'', ''root''), s2) \<and>
       stage3UserSetup host ''root'' ''root'' s2 = (Returned None, s3) \<and>
       extern (CLogin ''203.0.113.5'' ''sidekick'') (utils_Login host ''203.0.113.5'' ''sidekick'') s3 =
         (Inr ''sidekick'', s4) \<and>
       stage4VPSSetup host ''sidekick'' newBox s4 = (Returned None, scenarioBox, s5) \<and>
       stage5Docker host ''sidekick'' s5 = (Returned None, s6) \<and>
       stage6Traefik host ''sidekick'' ''a@b.com'' s6 = (Returned None, s7) \<and>
       Save host saved (viper_GetString_config host) s7 = (None, s8) \<and>
       worker host emptyRegistry ''203.0.113.5'' ''a@b.com'' newBox fresh = (scenarioResult, s8))"
  proof -
    let ?E = host and ?srv = "''203.0.113.5''" and ?mail = "''a@b.com''"
    let ?s1 = "snd (stage1LocalReqs ?E fresh)"
    let ?s2 = "snd (stage2Login ?E ?srv ?s1)"
    let ?s3 = "snd (stage3UserSetup ?E ''root'' ''root'' ?s2)"
    let ?s4 = "snd (extern (CLogin ?srv ''sidekick'') (utils_Login ?E ?srv ''sidekick'') ?s3)"
    let ?s5 = "snd (snd (stage4VPSSetup ?E ''sidekick'' newBox ?s4))"
    let ?s6 = "snd (stage5Docker ?E ''sidekick'' ?s5)"
    let ?s7 = "snd (stage6Traefik ?E ''sidekick'' ?mail ?s6)"
    let ?saved = "(AddOrReplaceContext (AddOrReplaceServer emptyRegistry scenarioBox)
                     \<lparr>SidekickContext.Name = SidekickServer.Name scenarioBox,
                      Server = SidekickServer.Name scenarioBox\<rparr>)
                    \<lparr>CurrentContext := SidekickServer.Name scenarioBox\<rparr>"
    let ?s8 = "snd (Save ?E ?saved (viper_GetString_config ?E) ?s7)"
    note t0 = worker_stream_by_outcome[where env = ?E and s = fresh and config = emptyRegistry
        and server = ?srv and certEmail = ?mail and sidekickServer = newBox, THEN conjunct1]
    have h1: "stage1LocalReqs ?E fresh = (None, ?s1)" by code_simp
    note t1 = t0[THEN conjunct2, THEN spec, THEN mp, OF h1]
    have h2: "stage2Login ?E ?srv ?s1 = (Inr (''root'', ''root''), ?s2)" by code_simp
    note t2 = t1[THEN conjunct2, THEN spec, THEN spec, THEN spec, THEN mp, OF h2]
    have h3: "stage3UserSetup ?E ''root'' ''root'' ?s2 = (Returned None, ?s3)" by code_simp
    note t3 = t2[THEN conjunct2, THEN conjunct2, THEN spec, THEN mp, OF h3]
    have h4: "extern (CLogin ?srv ''sidekick'') (utils_Login ?E ?srv ''sidekick'') ?s3 = (Inr ''sidekick'', ?s4)"
      by code_simp
    note t4 = t3[THEN conjunct2, THEN spec, THEN spec, THEN mp, OF h4]
    have h5: "stage4VPSSetup ?E ''sidekick'' newBox ?s4 = (Returned None, scenarioBox, ?s5)" by code_simp
    note t5 = t4[THEN conjunct2, THEN conjunct2, THEN spec, THEN spec, THEN mp, OF h5]
    have h6: "stage5Docker ?E ''sidekick'' ?s5 = (Returned None, ?s6)" by code_simp
    note t6 = t5[THEN conjunct2, THEN conjunct2, THEN spec, THEN mp, OF h6]
    have h7: "stage6Traefik ?E ''sidekick'' ?mail ?s6 = (Returned None, ?s7)" by code_simp
    note t7 = t6[THEN conjunct2, THEN conjunct2, THEN spec, THEN spec, THEN mp, OF conjI[OF h7 refl]]
    have h8: "Save ?E ?saved (viper_GetString_config ?E) ?s7 = (None, ?s8)" by code_simp
    note t8 = t7[THEN conjunct2, THEN spec, THEN mp, OF h8]
    have r: "\<lparr>sent = replicate 5 NextStageMsg @
               [AllDoneMsg (''VPS Setup Done in '' @ time_Since_start ?E (world ?s8) @ '','' @ [CHR 0x0A] @
                  ''Your VPS is ready! You can now run Sidekick launch in your app folder'')],
             returned = True, registry = ?saved, identity = scenarioBox\<rparr> = scenarioResult"
      by code_simp
    from t8 r have w: "worker ?E emptyRegistry ?srv ?mail newBox fresh = (scenarioResult, ?s8)"
      by simp
    from h1 h2 h3 h4 h5 h6 h7 h8 w show ?thesis
      unfolding Let_def by (intro conjI)
  qed
  have b: "stage2Login unreachable ''203.0.113.5'' (snd (stage1LocalReqs unreachable fresh)) =
     (Inl ''unable to establish SSH connection'',
      \<lparr>world = [],
       calls = [CLookPath ''sops'', CLookPath ''age'', CLogin ''203.0.113.5'' ''root'',
                CLogin ''203.0.113.5'' ''sidekick'']\<rparr>) \<and>
   worker unreachable emptyRegistry ''203.0.113.5'' ''a@b.com'' newBox fresh =
     (\<lparr>sent = [NextStageMsg, ErrorMsg ''Login failed: unable to establish SSH connection''],
       returned = True, registry = emptyRegistry, identity = newBox\<rparr>,
      \<lparr>world = [],
       calls = [CLookPath ''sops'', CLookPath ''age'', CLogin ''203.0.113.5'' ''root'',
                CLogin ''203.0.113.5'' ''sidekick'']\<rparr>)"
  proof -
    let ?E = unreachable and ?srv = "''203.0.113.5''" and ?mail = "''a@b.com''"
    let ?s1 = "snd (stage1LocalReqs ?E fresh)"
    let ?s2 = "snd (stage2Login ?E ?srv ?s1)"
    let ?s3 = "snd (stage3UserSetup ?E ''root'' ''root'' ?s2)"
    let ?s4 = "snd (extern (CLogin ?srv ''sidekick'') (utils_Login ?E ?srv ''sidekick'') ?s3)"
    let ?s5 = "snd (snd (stage4VPSSetup ?E ''sidekick'' newBox ?s4))"
    let ?s6 = "snd (stage5Docker ?E ''sidekick'' ?s5)"
    let ?s7 = "snd (stage6Traefik ?E ''sidekick'' ?mail ?s6)"
    let ?saved = "(AddOrReplaceContext (AddOrReplaceServer emptyRegistry scenarioBox)
                     \<lparr>SidekickContext.Name = SidekickServer.Name scenarioBox,
                      Server = SidekickServer.Name scenarioBox\<rparr>)
                    \<lparr>CurrentContext := SidekickServer.Name scenarioBox\<rparr>"
    let ?s8 = "snd (Save ?E ?saved (viper_GetString_config ?E) ?s7)"
    note t0 = worker_stream_by_outcome[where env = ?E and s = fresh and config = emptyRegistry
        and server = ?srv and certEmail = ?mail and sidekickServer = newBox, THEN conjunct1]
    have h1: "stage1LocalReqs ?E fresh = (None, ?s1)" by code_simp
    note t1 = t0[THEN conjunct2, THEN spec, THEN mp, OF h1]
    have h2: "stage2Login ?E ?srv ?s1 = (Inl ''unable to establish SSH connection'', ?s2)" by code_simp
    note t2 = t1[THEN conjunct1, THEN spec, THEN spec, THEN mp, OF h2]
    have st: "?s2 = \<lparr>world = [],
       calls = [CLookPath ''sops'', CLookPath ''age'', CLogin ''203.0.113.5'' ''root'',
                CLogin ''203.0.113.5'' ''sidekick'']\<rparr>"
      by code_simp
    from h2 st have g1: "stage2Login unreachable ''203.0.113.5'' (snd (stage1LocalReqs unreachable fresh)) =
     (Inl ''unable to establish SSH connection'',
      \<lparr>world = [],
       calls = [CLookPath ''sops'', CLookPath ''age'', CLogin ''203.0.113.5'' ''root'',
                CLogin ''203.0.113.5'' ''sidekick'']\<rparr>)"
      by simp
    from t2 st have g2: "worker ?E emptyRegistry ?srv ?mail newBox fresh =
     (\<lparr>sent = [NextStageMsg, ErrorMsg ''Login failed: unable to establish SSH connection''],
       returned = True, registry = emptyRegistry, identity = newBox\<rparr>,
      \<lparr>world = [],
       calls = [CLookPath ''sops'', CLookPath ''age'', CLogin ''203.0.113.5'' ''root'',
                CLogin ''203.0.113.5'' ''sidekick'']\<rparr>)"
      by (simp add: numeral_eq_Suc)
    from g1 g2 show ?thesis by (intro conjI)
  qed
  have c: "fst (worker dockerInstallFails emptyRegistry ''203.0.113.5'' ''a@b.com'' newBox fresh) =
     \<lparr>sent = [NextStageMsg, NextStageMsg, NextStageMsg, NextStageMsg,
              ErrorMsg ''Docker setup failed: Process exited with status 100''],
      returned = True, registry = emptyRegistry, identity = scenarioBox\<rparr> \<and>
   last (calls (snd (worker dockerInstallFails emptyRegistry ''203.0.113.5'' ''a@b.com'' newBox fresh))) =
     CRunCommandsWithTUIHook ''sidekick'' [''install docker'']"
  proof -
    let ?E = dockerInstallFails and ?srv = "''203.0.113.5''" and ?mail = "''a@b.com''"
    let ?s1 = "snd (stage1LocalReqs ?E fresh)"
    let ?s2 = "snd (stage2Login ?E ?srv ?s1)"
    let ?s3 = "snd (stage3UserSetup ?E ''root'' ''root'' ?s2)"
    let ?s4 = "snd (extern (CLogin ?srv ''sidekick'') (utils_Login ?E ?srv ''sidekick'') ?s3)"
    let ?s5 = "snd (snd (stage4VPSSetup ?E ''sidekick'' newBox ?s4))"
    let ?s6 = "snd (stage5Docker ?E ''sidekick'' ?s5)"
    let ?s7 = "snd (stage6Traefik ?E ''sidekick'' ?mail ?s6)"
    let ?saved = "(AddOrReplaceContext (AddOrReplaceServer emptyRegistry scenarioBox)
                     \<lparr>SidekickContext.Name = SidekickServer.Name scenarioBox,
                      Server = SidekickServer.Name scenarioBox\<rparr>)
                    \<lparr>CurrentContext := SidekickServer.Name scenarioBox\<rparr>"
    let ?s8 = "snd (Save ?E ?saved (viper_GetString_config ?E) ?s7)"
    note t0 = worker_stream_by_outcome[where env = ?E and s = fresh and config = emptyRegistry
        and server = ?srv and certEmail = ?mail and sidekickServer = newBox, THEN conjunct1]
    have h1: "stage1LocalReqs ?E fresh = (None, ?s1)" by code_simp
    note t1 = t0[THEN conjunct2, THEN spec, THEN mp, OF h1]
    have h2: "stage2Login ?E ?srv ?s1 = (Inr (''root'', ''root''), ?s2)" by code_simp
    note t2 = t1[THEN conjunct2, THEN spec, THEN spec, THEN spec, THEN mp, OF h2]
    have h3: "stage3UserSetup ?E ''root'' ''root'' ?s2 = (Returned None, ?s3)" by code_simp
    note t3 = t2[THEN conjunct2, THEN conjunct2, THEN spec, THEN mp, OF h3]
    have h4: "extern (CLogin ?srv ''sidekick'') (utils_Login ?E ?srv ''sidekick'') ?s3 = (Inr ''sidekick'', ?s4)"
      by code_simp
    note t4 = t3[THEN conjunct2, THEN spec, THEN spec, THEN mp, OF h4]
    have h5: "stage4VPSSetup ?E ''sidekick'' newBox ?s4 = (Returned None, scenarioBox, ?s5)" by code_simp
    note t5 = t4[THEN conjunct2, THEN conjunct2, THEN spec, THEN spec, THEN mp, OF h5]
    have h6: "stage5Docker ?E ''sidekick'' ?s5 = (Returned (Some ''Process exited with status 100''), ?s6)"
      by code_simp
    note t6 = t5[THEN conjunct2, THEN conjunct1, THEN spec, THEN spec, THEN mp, OF h6]
    have st: "last (calls ?s6) = CRunCommandsWithTUIHook ''sidekick'' [''install docker'']"
      by code_simp
    from t6 have g1: "fst (worker ?E emptyRegistry ?srv ?mail newBox fresh) =
     \<lparr>sent = [NextStageMsg, NextStageMsg, NextStageMsg, NextStageMsg,
              ErrorMsg ''Docker setup failed: Process exited with status 100''],
      returned = True, registry = emptyRegistry, identity = scenarioBox\<rparr>"
      by (simp add: numeral_eq_Suc)
    from t6 st have g2: "last (calls (snd (worker ?E emptyRegistry ?srv ?mail newBox fresh))) =
     CRunCommandsWithTUIHook ''sidekick'' [''install docker'']"
      by simp
    from g1 g2 show ?thesis by (intro conjI)
  qed
  have d: "fst (worker silentTraefikProbe emptyRegistry ''203.0.113.5'' ''a@b.com'' newBox fresh) =
     \<lparr>sent = [NextStageMsg, NextStageMsg, NextStageMsg, NextStageMsg, NextStageMsg],
      returned = False, registry = emptyRegistry, identity = scenarioBox\<rparr> \<and>
   last (calls (snd (worker silentTraefikProbe emptyRegistry ''203.0.113.5'' ''a@b.com'' newBox fresh))) = CRunCommand ''sidekick'' traefikProbe"
  proof -
    let ?E = silentTraefikProbe and ?srv = "''203.0.113.5''" and ?mail = "''a@b.com''"
    let ?s1 = "snd (stage1LocalReqs ?E fresh)"
    let ?s2 = "snd (stage2Login ?E ?srv ?s1)"
    let ?s3 = "snd (stage3UserSetup ?E ''root'' ''root'' ?s2)"
    let ?s4 = "snd (extern (CLogin ?srv ''sidekick'') (utils_Login ?E ?srv ''sidekick'') ?s3)"
    let ?s5 = "snd (snd (stage4VPSSetup ?E ''sidekick'' newBox ?s4))"
    let ?s6 = "snd (stage5Docker ?E ''sidekick'' ?s5)"
    let ?s7 = "snd (stage6Traefik ?E ''sidekick'' ?mail ?s6)"
    let ?saved = "(AddOrReplaceContext (AddOrReplaceServer emptyRegistry scenarioBox)
                     \<lparr>SidekickContext.Name = SidekickServer.Name scenarioBox,
                      Server = SidekickServer.Name scenarioBox\<rparr>)
                    \<lparr>CurrentContext := SidekickServer.Name scenarioBox\<rparr>"
    let ?s8 = "snd (Save ?E ?saved (viper_GetString_config ?E) ?s7)"
    note t0 = worker_stream_by_outcome[where env = ?E and s = fresh and config = emptyRegistry
        and server = ?srv and certEmail = ?mail and sidekickServer = newBox, THEN conjunct1]
    have h1: "stage1LocalReqs ?E fresh = (None, ?s1)" by code_simp
    note t1 = t0[THEN conjunct2, THEN spec, THEN mp, OF h1]
    have h2: "stage2Login ?E ?srv ?s1 = (Inr (''root'', ''root''), ?s2)" by code_simp
    note t2 = t1[THEN conjunct2, THEN spec, THEN spec, THEN spec, THEN mp, OF h2]
    have h3: "stage3UserSetup ?E ''root'' ''root'' ?s2 = (Returned None, ?s3)" by code_simp
    note t3 = t2[THEN conjunct2, THEN conjunct2, THEN spec, THEN mp, OF h3]
    have h4: "extern (CLogin ?srv ''sidekick'') (utils_Login ?E ?srv ''sidekick'') ?s3 = (Inr ''sidekick'', ?s4)"
      by code_simp
    note t4 = t3[THEN conjunct2, THEN spec, THEN spec, THEN mp, OF h4]
    have h5: "stage4VPSSetup ?E ''sidekick'' newBox ?s4 = (Returned None, scenarioBox, ?s5)" by code_simp
    note t5 = t4[THEN conjunct2, THEN conjunct2, THEN spec, THEN spec, THEN mp, OF h5]
    have h6: "stage5Docker ?E ''sidekick'' ?s5 = (Returned None, ?s6)" by code_simp
    note t6 = t5[THEN conjunct2, THEN conjunct2, THEN spec, THEN mp, OF h6]
    have h7: "stage6Traefik ?E ''sidekick'' ?mail ?s6 = (Blocked, ?s7)" by code_simp
    note t7 = t6[THEN conjunct1, THEN spec, THEN mp, OF h7]
    have st: "last (calls ?s7) = CRunCommand ''sidekick'' traefikProbe"
      by code_simp
    from t7 have g1: "fst (worker ?E emptyRegistry ?srv ?mail newBox fresh) =
     \<lparr>sent = [NextStageMsg, NextStageMsg, NextStageMsg, NextStageMsg, NextStageMsg],
      returned = False, registry = emptyRegistry, identity = scenarioBox\<rparr>"
      by (simp add: numeral_eq_Suc)
    from t7 st have g2: "last (calls (snd (worker ?E emptyRegistry ?srv ?mail newBox fresh))) =
     CRunCommand ''sidekick'' traefikProbe"
      by simp
    from g1 g2 show ?thesis by (intro conjI)
  qed
  have e: "fst (worker readOnlyRegistry emptyRegistry ''203.0.113.5'' ''a@b.com'' newBox fresh) =
     \<lparr>sent = [NextStageMsg, NextStageMsg, NextStageMsg, NextStageMsg, NextStageMsg,
              ErrorMsg ''Failed to write config: open: permission denied''],
      returned = True, registry = registry scenarioResult, identity = scenarioBox\<rparr> \<and>
   last (calls (snd (worker readOnlyRegistry emptyRegistry ''203.0.113.5'' ''a@b.com'' newBox fresh))) =
     CWriteFile ''/home/u/.config/sidekick/default.yaml''
       ''version: 1 currentContext: box1 servers: box1 contexts: box1''"
  proof -
    let ?E = readOnlyRegistry and ?srv = "''203.0.113.5''" and ?mail = "''a@b.com''"
    let ?s1 = "snd (stage1LocalReqs ?E fresh)"
    let ?s2 = "snd (stage2Login ?E ?srv ?s1)"
    let ?s3 = "snd (stage3UserSetup ?E ''root'' ''root'' ?s2)"
    let ?s4 = "snd (extern (CLogin ?srv ''sidekick'') (utils_Login ?E ?srv ''sidekick'') ?s3)"
    let ?s5 = "snd (snd (stage4VPSSetup ?E ''sidekick'' newBox ?s4))"
    let ?s6 = "snd (stage5Docker ?E ''sidekick'' ?s5)"
    let ?s7 = "snd (stage6Traefik ?E ''sidekick'' ?mail ?s6)"
    let ?saved = "(AddOrReplaceContext (AddOrReplaceServer emptyRegistry scenarioBox)
                     \<lparr>SidekickContext.Name = SidekickServer.Name scenarioBox,
                      Server = SidekickServer.Name scenarioBox\<rparr>)
                    \<lparr>CurrentContext := SidekickServer.Name scenarioBox\<rparr>"
    let ?s8 = "snd (Save ?E ?saved (viper_GetString_config ?E) ?s7)"
    note t0 = worker_stream_by_outcome[where env = ?E and s = fresh and config = emptyRegistry
        and server = ?srv and certEmail = ?mail and sidekickServer = newBox, THEN conjunct1]
    have h1: "stage1LocalReqs ?E fresh = (None, ?s1)" by code_simp
    note t1 = t0[THEN conjunct2, THEN spec, THEN mp, OF h1]
    have h2: "stage2Login ?E ?srv ?s1 = (Inr (''root'', ''root''), ?s2)" by code_simp
    note t2 = t1[THEN conjunct2, THEN spec, THEN spec, THEN spec, THEN mp, OF h2]
    have h3: "stage3UserSetup ?E ''root'' ''root'' ?s2 = (Returned None, ?s3)" by code_simp
    note t3 = t2[THEN conjunct2, THEN conjunct2, THEN spec, THEN mp, OF h3]
    have h4: "extern (CLogin ?srv ''sidekick'') (utils_Login ?E ?srv ''sidekick'') ?s3 = (Inr ''sidekick'', ?s4)"
      by code_simp
    note t4 = t3[THEN conjunct2, THEN spec, THEN spec, THEN mp, OF h4]
    have h5: "stage4VPSSetup ?E ''sidekick'' newBox ?s4 = (Returned None, scenarioBox, ?s5)" by code_simp
    note t5 = t4[THEN conjunct2, THEN conjunct2, THEN spec, THEN spec, THEN mp, OF h5]
    have h6: "stage5Docker ?E ''sidekick'' ?s5 = (Returned None, ?s6)" by code_simp
    note t6 = t5[THEN conjunct2, THEN conjunct2, THEN spec, THEN mp, OF h6]
    have h7: "stage6Traefik ?E ''sidekick'' ?mail ?s6 = (Returned None, ?s7)" by code_simp
    note t7 = t6[THEN conjunct2, THEN conjunct2, THEN spec, THEN spec, THEN mp, OF conjI[OF h7 refl]]
    have h8: "Save ?E ?saved (viper_GetString_config ?E) ?s7 = (Some ''open: permission denied'', ?s8)"
      by code_simp
    note t8 = t7[THEN conjunct1, THEN spec, THEN spec, THEN mp, OF h8]
    have st: "last (calls ?s8) = CWriteFile ''/home/u/.config/sidekick/default.yaml''
       ''version: 1 currentContext: box1 servers: box1 contexts: box1''"
      by code_simp
    have sv: "?saved = registry scenarioResult" by code_simp
    from t8 sv have g1: "fst (worker ?E emptyRegistry ?srv ?mail newBox fresh) =
     \<lparr>sent = [NextStageMsg, NextStageMsg, NextStageMsg, NextStageMsg, NextStageMsg,
              ErrorMsg ''Failed to write config: open: permission denied''],
      returned = True, registry = registry scenarioResult, identity = scenarioBox\<rparr>"
      by (simp add: numeral_eq_Suc)
    from t8 st have g2: "last (calls (snd (worker ?E emptyRegistry ?srv ?mail newBox fresh))) =
     CWriteFile ''/home/u/.config/sidekick/default.yaml''
       ''version: 1 currentContext: box1 servers: box1 contexts: box1''"
      by simp
    from g1 g2 show ?thesis by (intro conjI)
  qed
  from a b[THEN conjunct1] b[THEN conjunct2] c[THEN conjunct1] c[THEN conjunct2]
    d[THEN conjunct1] d[THEN conjunct2] e[THEN conjunct1] e[THEN conjunct2]
  show ?thesis by (intro conjI)
qed

section \<open>From a successful run to the registry\<close>

lemma stage4VPSSetup_frame:
  assumes "stage4VPSSetup env client server s = (res, server', s')"
  shows "SidekickServer.Name server' = SidekickServer.Name server \<and> Address server' = Address server \<and>
         CertEmail server' = CertEmail server"
proof -
  have "SidekickServer.Name (fst (snd (stage4VPSSetup env client server s))) = SidekickServer.Name server \<and>
        Address (fst (snd (stage4VPSSetup env client server s))) = Address server \<and>
        CertEmail (fst (snd (stage4VPSSetup env client server s))) = CertEmail server"
    by (simp add: stage4VPSSetup_def extern_def Let_def split: prod.splits option.splits sum.splits)
  with assms show ?thesis by simp
qed

lemma Save_ok:
  assumes "Save env c path s = (None, s')"
  shows "\<exists>data. yaml_Marshal env c = Inr data \<and> os_WriteFile env path data (world s) = (None, world s') \<and>
           calls s' = calls s @ [CWriteFile path data]"
  using assms by (auto simp: Save_def extern_def split: sum.splits prod.splits)

lemma worker_AllDone:
  assumes "worker env config server certEmail sidekickServer s = (r, s')"
      and "AllDoneMsg m \<in> set (sent r)"
  shows "SidekickServer.Name (identity r) = SidekickServer.Name sidekickServer \<and>
         Address (identity r) = Address sidekickServer \<and>
         CertEmail (identity r) = CertEmail sidekickServer \<and>
         registry r =
           (AddOrReplaceContext (AddOrReplaceServer config (identity r))
              \<lparr>SidekickContext.Name = SidekickServer.Name (identity r),
               Server = SidekickServer.Name (identity r)\<rparr>)
             \<lparr>CurrentContext := SidekickServer.Name (identity r)\<rparr> \<and>
         (\<exists>data cs w.
            yaml_Marshal env (registry r) = Inr data \<and>
            os_WriteFile env (viper_GetString_config env) data w = (None, world s') \<and>
            calls s' = cs @ [CWriteFile (viper_GetString_config env) data])"
  using assms
  by (auto simp: worker_def Let_def split: prod.splits sum.splits option.splits completion.splits
          dest!: stage4VPSSetup_frame Save_ok)

lemma InitCmd_Run_new_server:
  assumes "flag_name fl \<noteq> []" and "flag_server fl \<noteq> []" and "flag_email fl \<noteq> []"
      and "Servers config = []"
  shows "InitCmd_Run env (Some config) fl s =
           (case extern (CLogin (flag_server fl) ''root'') (utils_Login env (flag_server fl) ''root'') s of
              (_, s5) \<Rightarrow>
                (case worker env config (flag_server fl) (flag_email fl)
                        \<lparr>SidekickServer.Name = flag_name fl, Address = flag_server fl,
                         CertEmail = flag_email fl, Distro = [], PlatformId = [], PublicKey = [],
                         SecretKey = []\<rparr> s5 of
                   (r, s6) \<Rightarrow> (Return r, s6)))"
  using assms
  by (simp add: InitCmd_Run_def GetSidekickConfigFromCmdContext_def FindServer_def Let_def)

text \<open>
  Claim C7. Starting from a registry without servers and contexts, a run of \<^verbatim>\<open>init\<close> with
  server \<^verbatim>\<open>203.0.113.5\<close>, email \<^verbatim>\<open>a@b.com\<close> and name \<^verbatim>\<open>box1\<close> that reaches the completion
  message leaves a registry with exactly one server, named \<^verbatim>\<open>box1\<close>, with that address and
  email, exactly one context \<^verbatim>\<open>box1\<close> pointing to server \<^verbatim>\<open>box1\<close>, and \<^verbatim>\<open>box1\<close> as current
  context; the last call of the run is the successful write of the serialisation of that
  registry to the registry file.
\<close>

theorem init_scenario_from_empty_registry:
  assumes "Servers config = []" and "Contexts config = []"
      and "fst (InitCmd_Run env (Some config)
                 \<lparr>flag_yes = yes, flag_server = ''203.0.113.5'', flag_email = ''a@b.com'',
                  flag_name = ''box1''\<rparr> s) = Return r"
      and "AllDoneMsg m \<in> set (sent r)"
  shows "length (Servers (registry r)) = 1 \<and>
         SidekickServer.Name (hd (Servers (registry r))) = ''box1'' \<and>
         Address (hd (Servers (registry r))) = ''203.0.113.5'' \<and>
         CertEmail (hd (Servers (registry r))) = ''a@b.com'' \<and>
         Contexts (registry r) = [\<lparr>SidekickContext.Name = ''box1'', Server = ''box1''\<rparr>] \<and>
         CurrentContext (registry r) = ''box1'' \<and>
         (\<exists>data cs w.
            yaml_Marshal env (registry r) = Inr data \<and>
            os_WriteFile env (viper_GetString_config env) data w =
              (None, world (snd (InitCmd_Run env (Some config)
                 \<lparr>flag_yes = yes, flag_server = ''203.0.113.5'', flag_email = ''a@b.com'',
                  flag_name = ''box1''\<rparr> s))) \<and>
            calls (snd (InitCmd_Run env (Some config)
                 \<lparr>flag_yes = yes, flag_server = ''203.0.113.5'', flag_email = ''a@b.com'',
                  flag_name = ''box1''\<rparr> s)) = cs @ [CWriteFile (viper_GetString_config env) data])"
proof -
  let ?fl = "\<lparr>flag_yes = yes, flag_server = ''203.0.113.5'', flag_email = ''a@b.com'', flag_name = ''box1''\<rparr>"
  let ?new = "\<lparr>SidekickServer.Name = ''box1'', Address = ''203.0.113.5'', CertEmail = ''a@b.com'',
                Distro = [], PlatformId = [], PublicKey = [], SecretKey = []\<rparr>"
  obtain x s5 where l: "extern (CLogin ''203.0.113.5'' ''root'') (utils_Login env ''203.0.113.5'' ''root'') s = (x, s5)"
    by (cases "extern (CLogin ''203.0.113.5'' ''root'') (utils_Login env ''203.0.113.5'' ''root'') s")
  obtain r' s6 where w: "worker env config ''203.0.113.5'' ''a@b.com'' ?new s5 = (r', s6)"
    by (cases "worker env config ''203.0.113.5'' ''a@b.com'' ?new s5")
  have run: "InitCmd_Run env (Some config) ?fl s = (Return r', s6)"
    using InitCmd_Run_new_server[of ?fl config env s] assms(1) l w by simp
  with assms(3) have r: "r' = r" by simp
  from w r have w': "worker env config ''203.0.113.5'' ''a@b.com'' ?new s5 = (r, s6)" by simp
  note fin = worker_AllDone[OF w' assms(4)]
  from fin have id: "SidekickServer.Name (identity r) = ''box1''" "Address (identity r) = ''203.0.113.5''"
      "CertEmail (identity r) = ''a@b.com''"
    by simp_all
  from fin have reg: "registry r =
           (AddOrReplaceContext (AddOrReplaceServer config (identity r))
              \<lparr>SidekickContext.Name = SidekickServer.Name (identity r),
               Server = SidekickServer.Name (identity r)\<rparr>)
             \<lparr>CurrentContext := SidekickServer.Name (identity r)\<rparr>"
    by (elim conjE)
  from fin have sv: "\<exists>data cs w.
            yaml_Marshal env (registry r) = Inr data \<and>
            os_WriteFile env (viper_GetString_config env) data w = (None, world s6) \<and>
            calls s6 = cs @ [CWriteFile (viper_GetString_config env) data]"
    by (elim conjE)
  have servers: "Servers (registry r) = [identity r]"
    using reg assms(1) by (simp add: AddOrReplaceServer_def AddOrReplaceContext_def Let_def)
  have contexts: "Contexts (registry r) = [\<lparr>SidekickContext.Name = ''box1'', Server = ''box1''\<rparr>]"
    using reg assms(2) id(1) by (simp add: AddOrReplaceServer_def AddOrReplaceContext_def Let_def)
  have current: "CurrentContext (registry r) = ''box1''"
    using reg id(1) by simp
  from servers contexts current id sv run show ?thesis by simp
qed

theorem init_scenario_from_empty_registry_witness:
  "Servers emptyRegistry = [] \<and> Contexts emptyRegistry = [] \<and>
   fst (InitCmd_Run host (Some emptyRegistry)
          \<lparr>flag_yes = False, flag_server = ''203.0.113.5'', flag_email = ''a@b.com'', flag_name = ''box1''\<rparr>
          fresh) = Return scenarioResult \<and>
   AllDoneMsg (''VPS Setup Done in 42s,'' @ [CHR 0x0A] @
      ''Your VPS is ready! You can now run Sidekick launch in your app folder'') \<in> set (sent scenarioResult) \<and>
   length (Servers (registry scenarioResult)) = 1 \<and>
   SidekickServer.Name (hd (Servers (registry scenarioResult))) = ''box1'' \<and>
   Address (hd (Servers (registry scenarioResult))) = ''203.0.113.5'' \<and>
   CertEmail (hd (Servers (registry scenarioResult))) = ''a@b.com'' \<and>
   Contexts (registry scenarioResult) = [\<lparr>SidekickContext.Name = ''box1'', Server = ''box1''\<rparr>] \<and>
   CurrentContext (registry scenarioResult) = ''box1'' \<and>
   last (calls (snd (InitCmd_Run host (Some emptyRegistry)
          \<lparr>flag_yes = False, flag_server = ''203.0.113.5'', flag_email = ''a@b.com'', flag_name = ''box1''\<rparr>
          fresh))) =
     CWriteFile ''/home/u/.config/sidekick/default.yaml''
       ''version: 1 currentContext: box1 servers: box1 contexts: box1''"
proof -
  let ?fl = "\<lparr>flag_yes = False, flag_server = ''203.0.113.5'', flag_email = ''a@b.com'', flag_name = ''box1''\<rparr>"
  let ?m = "''VPS Setup Done in 42s,'' @ [CHR 0x0A] @
      ''Your VPS is ready! You can now run Sidekick launch in your app folder''"
  have h1: "Servers emptyRegistry = []" by (simp add: emptyRegistry_def)
  have h2: "Contexts emptyRegistry = []" by (simp add: emptyRegistry_def)
  have h3: "fst (InitCmd_Run host (Some emptyRegistry) ?fl fresh) = Return scenarioResult"
    by code_simp
  have h4: "AllDoneMsg ?m \<in> set (sent scenarioResult)"
    by (simp add: scenarioResult_def)
  have l: "last (calls (snd (InitCmd_Run host (Some emptyRegistry) ?fl fresh))) =
     CWriteFile ''/home/u/.config/sidekick/default.yaml''
       ''version: 1 currentContext: box1 servers: box1 contexts: box1''"
    by code_simp
  note t = init_scenario_from_empty_registry[OF h1 h2 h3 h4]
  from t have t1: "length (Servers (registry scenarioResult)) = 1" by (elim conjE)
  from t have t2: "SidekickServer.Name (hd (Servers (registry scenarioResult))) = ''box1''" by (elim conjE)
  from t have t3: "Address (hd (Servers (registry scenarioResult))) = ''203.0.113.5''" by (elim conjE)
  from t have t4: "CertEmail (hd (Servers (registry scenarioResult))) = ''a@b.com''" by (elim conjE)
  from t have t5: "Contexts (registry scenarioResult) = [\<lparr>SidekickContext.Name = ''box1'', Server = ''box1''\<rparr>]"
    by (elim conjE)
  from t have t6: "CurrentContext (registry scenarioResult) = ''box1''" by (elim conjE)
  from h1 h2 h3 h4 t1 t2 t3 t4 t5 t6 l show ?thesis by (intro conjI)
qed

end
